theory Spec2Isabelle
  imports Complex_Main "HOL-Library.Product_Lexorder"
begin

section \<open>Python strings\<close>

text \<open>
  A Python \<open>str\<close> is modelled as a \<^typ>\<open>string\<close>; a \<^typ>\<open>char\<close> stands for a code
  point below 256. \<open>str.isspace\<close> is true of exactly the code points listed here in
  that range, and \<open>str.strip()\<close> removes them from both ends.
\<close>

definition py_isspace :: "char \<Rightarrow> bool" where
  "py_isspace c = ((of_char c :: nat) \<in> {9, 10, 11, 12, 13, 28, 29, 30, 31, 32, 133, 160})"

definition py_strip :: "string \<Rightarrow> string" where
  "py_strip s = rev (dropWhile py_isspace (rev (dropWhile py_isspace s)))"

definition startswith :: "string \<Rightarrow> string \<Rightarrow> bool" where
  "startswith s p = (take (length p) s = p)"

section \<open>ocr_utils.py: EXIF metadata\<close>

text \<open>
  \<open>exifread.process_file\<close> is an external library: it yields a dictionary from tag
  names to tags, or raises (as does \<open>open\<close> on an unreadable path). A tag is kept as the
  text \<open>str(tag)\<close> gives. \<open>None\<close> stands for the raised exception.
\<close>

type_synonym exif_tags = "string \<rightharpoonup> string"

type_synonym exif_dict = "string \<rightharpoonup> string option"

definition exif_none :: exif_dict where
  "exif_none = [''date'' \<mapsto> None, ''location'' \<mapsto> None,
                ''camera_make'' \<mapsto> None, ''camera_model'' \<mapsto> None]"

text \<open>\<open>date_str.split(' ')[0].replace(':', '-')\<close>\<close>

definition exif_date_part :: "string \<Rightarrow> string" where
  "exif_date_part date_str =
     map (\<lambda>c. if c = CHR '':'' then CHR ''-'' else c)
       (takeWhile (\<lambda>c. c \<noteq> CHR '' '') date_str)"

definition extract_exif_data :: "(string \<Rightarrow> exif_tags option) \<Rightarrow> string \<Rightarrow> exif_dict" where
  "extract_exif_data exifread image_path =
     (case exifread image_path of
        None \<Rightarrow> exif_none
      | Some tags \<Rightarrow>
          (let d0 = exif_none;
               d1 = (case tags ''EXIF DateTimeOriginal'' of
                       Some date_str \<Rightarrow> d0(''date'' \<mapsto> Some (exif_date_part date_str))
                     | None \<Rightarrow>
                        (case tags ''Image DateTime'' of
                           Some date_str \<Rightarrow> d0(''date'' \<mapsto> Some (exif_date_part date_str))
                         | None \<Rightarrow> d0));
               d2 = (case tags ''Image Make'' of
                       Some mk \<Rightarrow> d1(''camera_make'' \<mapsto> Some mk)
                     | None \<Rightarrow> d1);
               d3 = (case tags ''Image Model'' of
                       Some md \<Rightarrow> d2(''camera_model'' \<mapsto> Some md)
                     | None \<Rightarrow> d2);
               d4 = (case tags ''GPS GPSLatitude'' of
                       Some lat \<Rightarrow>
                        (case tags ''GPS GPSLongitude'' of
                           Some lon \<Rightarrow> d3(''location'' \<mapsto> Some (''GPS: '' @ lat @ '', '' @ lon))
                         | None \<Rightarrow> d3)
                     | None \<Rightarrow> d3)
           in d4))"

definition exif_keys :: "string set" where
  "exif_keys = {''date'', ''location'', ''camera_make'', ''camera_model''}"

section \<open>sentiment_utils.py\<close>

text \<open>
  Python floats are idealised as reals. \<open>round(x, 2)\<close> rounds to the nearest multiple of
  \<open>1/100\<close>, a tie going to the even one.
\<close>

definition py_round2 :: "real \<Rightarrow> real" where
  "py_round2 x =
     (let y = x * 100; f = \<lfloor>y\<rfloor>; d = y - of_int f
      in of_int (if d < 1 / 2 then f
                 else if 1 / 2 < d then f + 1
                 else if even f then f else f + 1) / 100)"

text \<open>
  The collaborators of the scorer: \<open>re.sub\<close> (pattern, replacement, subject), TextBlob's
  polarity and VADER's compound score. A scoring engine that raises is \<open>None\<close>. Every call
  of a scoring engine is logged, so that a result can say which engines ran.
\<close>

record sentiment_engines =
  re_sub :: "string \<Rightarrow> string \<Rightarrow> string \<Rightarrow> string"
  textblob_polarity :: "string \<Rightarrow> real option"
  vader_compound :: "string \<Rightarrow> real option"

datatype engine_call = TextBlobCall string | VaderCall string

definition get_textblob_sentiment :: "sentiment_engines \<Rightarrow> string \<Rightarrow> real \<times> engine_call list" where
  "get_textblob_sentiment eng txt =
     ((case textblob_polarity eng txt of Some p \<Rightarrow> p | None \<Rightarrow> 0), [TextBlobCall txt])"

definition get_vader_sentiment :: "sentiment_engines \<Rightarrow> string \<Rightarrow> real \<times> engine_call list" where
  "get_vader_sentiment eng txt =
     ((case vader_compound eng txt of Some p \<Rightarrow> p | None \<Rightarrow> 0), [VaderCall txt])"

text \<open>The regular expressions of \<open>clean_text_for_sentiment\<close>, with \<open>bs\<close> the backslash.\<close>

definition bs :: string where
  "bs = [char_of (92 :: nat)]"

definition re_whitespace :: string where
  "re_whitespace = bs @ ''s+''"

definition re_url :: string where
  "re_url = ''http[s]?://(?:[a-zA-Z]|[0-9]|[$-_@.&+]|[!*'' @ bs @ bs @ ''('' @ bs @ bs
              @ ''),]|(?:%[0-9a-fA-F][0-9a-fA-F]))+''"

definition re_email :: string where
  "re_email = bs @ ''S+@'' @ bs @ ''S+''"

definition re_phone :: string where
  "re_phone = bs @ ''b'' @ bs @ ''d{3}[-.]?'' @ bs @ ''d{3}[-.]?'' @ bs @ ''d{4}'' @ bs @ ''b''"

definition clean_text_for_sentiment :: "sentiment_engines \<Rightarrow> string \<Rightarrow> string" where
  "clean_text_for_sentiment eng txt =
     (if txt = [] then []
      else
        (let t1 = re_sub eng re_whitespace '' '' (py_strip txt);
             t2 = re_sub eng re_url [] t1;
             t3 = re_sub eng re_email [] t2;
             t4 = re_sub eng re_phone [] t3;
             t5 = re_sub eng ''[!]{2,}'' ''!'' t4;
             t6 = re_sub eng ''[?]{2,}'' ''?'' t5;
             t7 = re_sub eng ''[.]{2,}'' ''.'' t6
         in py_strip t7))"

text \<open>
  \<open>analyze_sentiment(text)\<close>; the argument is \<open>None\<close> when the text is absent. The
  second component of the result is the log of engine calls.
\<close>

definition analyze_sentiment :: "sentiment_engines \<Rightarrow> string option \<Rightarrow> real \<times> engine_call list" where
  "analyze_sentiment eng text_arg =
     (case text_arg of
        None \<Rightarrow> (0, [])
      | Some txt \<Rightarrow>
          if txt = [] \<or> py_strip txt = [] then (0, [])
          else
            (let cleaned_text = clean_text_for_sentiment eng txt
             in if cleaned_text = [] then (0, [])
                else
                  (let (textblob_score, c1) = get_textblob_sentiment eng cleaned_text;
                       (vader_score, c2) = get_vader_sentiment eng cleaned_text;
                       final_score = (textblob_score + vader_score) / 2
                   in (py_round2 final_score, c1 @ c2))))"

text \<open>
  app.py, \<open>upload_memory\<close>:
  \<open>sentiment_score = analyze_sentiment(extracted_text) if extracted_text else 0.0\<close>.
  The result is the score, the arguments \<open>analyze_sentiment\<close> was called with, and the
  log of engine calls.
\<close>

definition upload_sentiment ::
  "sentiment_engines \<Rightarrow> string \<Rightarrow> real \<times> string list \<times> engine_call list" where
  "upload_sentiment eng extracted_text =
     (if extracted_text \<noteq> []
      then (let (s, calls) = analyze_sentiment eng (Some extracted_text)
            in (s, [extracted_text], calls))
      else (0, [], []))"

definition scores_bounded :: "sentiment_engines \<Rightarrow> bool" where
  "scores_bounded eng =
     (\<forall>s p. (textblob_polarity eng s = Some p \<longrightarrow> - 1 \<le> p \<and> p \<le> 1) \<and>
            (vader_compound eng s = Some p \<longrightarrow> - 1 \<le> p \<and> p \<le> 1))"

text \<open>A pair of engines with fixed scores, to evaluate the scorer on.\<close>

definition fixed_engines :: "real \<Rightarrow> real \<Rightarrow> sentiment_engines" where
  "fixed_engines a b =
     \<lparr>re_sub = (\<lambda>pat repl s. s),
      textblob_polarity = (\<lambda>s. Some a),
      vader_compound = (\<lambda>s. Some b)\<rparr>"

section \<open>db.py: the store\<close>

text \<open>
  What Python binds to an SQL parameter and what a column holds: \<open>None\<close> is
  \<open>NULL\<close>, a \<open>str\<close> is text, an \<open>int\<close> an integer, a \<open>float\<close> a real.
  Values are stored as bound; the conversions SQLite applies for a column's declared
  affinity are not modelled.
\<close>

datatype sql_value = SqlNull | SqlText string | SqlInt int | SqlReal real

datatype py_exception =
    HTTPException nat string
  | IntegrityError string
  | OperationalError string
  | OSError string

datatype py_value = PyBool bool | PyStr string | PyNone

text \<open>
  \<open>str(e)\<close>: the message of an exception; for an \<open>HTTPException\<close> the detail is taken
  (the status code that the framework may print before it is left out).
\<close>

fun exc_str :: "py_exception \<Rightarrow> string" where
  "exc_str (HTTPException code detail) = detail"
| "exc_str (IntegrityError msg) = msg"
| "exc_str (OperationalError msg) = msg"
| "exc_str (OSError msg) = msg"

text \<open>A row of table \<open>memories\<close>; timestamps are seconds of the clock.\<close>

record memory_row =
  m_id :: int
  m_title :: sql_value
  m_text :: sql_value
  m_date :: sql_value
  m_location :: sql_value
  m_sentiment :: sql_value
  m_media_path :: sql_value
  m_media_type :: sql_value
  m_person :: sql_value
  m_created_at :: nat
  m_updated_at :: nat

text \<open>
  A document of the full-text index \<open>memories_fts\<close>: the rowid it was indexed under and
  the values of the three indexed columns at that moment.
\<close>

record fts_doc =
  f_rowid :: int
  f_title :: sql_value
  f_text :: sql_value
  f_person :: sql_value

text \<open>
  The committed state: the rows of \<open>memories\<close>, the documents held by the index
  \<open>memories_fts\<close>, and the \<open>AUTOINCREMENT\<close> counter (the largest rowid ever given
  out). Every operation below is one transaction: it maps a committed state to the next
  one, or raises and leaves it.
\<close>

record database =
  memories :: "memory_row list"
  fts_index :: "fts_doc list"
  sqlite_sequence :: int

text \<open>The store that \<open>init_database()\<close> creates on a fresh file.\<close>

definition init_database :: database where
  "init_database = \<lparr>memories = [], fts_index = [], sqlite_sequence = 0\<rparr>"

definition fts_of :: "memory_row \<Rightarrow> fts_doc" where
  "fts_of r = \<lparr>f_rowid = m_id r, f_title = m_title r, f_text = m_text r, f_person = m_person r\<rparr>"

subsection \<open>The index engine\<close>

text \<open>
  \<open>memories_fts\<close> is declared with \<open>content='memories', content_rowid='id'\<close>: an
  external-content FTS5 table. It stores the index only; its rows are those of the content
  table. A statement on it therefore behaves as follows.
  \<^item> \<open>INSERT INTO memories_fts(rowid, ...) VALUES (...)\<close> indexes the given values under the
    given rowid.
  \<^item> \<open>DELETE FROM memories_fts WHERE rowid = r\<close> visits the row \<open>r\<close> of the content table,
    if there is one, and takes out of the index what the values it reads there were indexed
    as; with no such row nothing is visited and the index is left as it is.
  \<^item> \<open>UPDATE memories_fts SET ... WHERE rowid = r\<close> does the same and then indexes the new
    values.
  The index is kept as a list of documents; the terms a rowid can be found by are those of
  all its documents.
\<close>

definition fts_insert :: "fts_doc list \<Rightarrow> fts_doc \<Rightarrow> fts_doc list" where
  "fts_insert idx doc = idx @ [doc]"

definition fts_delete :: "memory_row list \<Rightarrow> fts_doc list \<Rightarrow> int \<Rightarrow> fts_doc list" where
  "fts_delete content idx rowid =
     (case find (\<lambda>m. m_id m = rowid) content of
        None \<Rightarrow> idx
      | Some m \<Rightarrow> remove1 (fts_of m) idx)"

definition fts_update :: "memory_row list \<Rightarrow> fts_doc list \<Rightarrow> int \<Rightarrow> fts_doc \<Rightarrow> fts_doc list" where
  "fts_update content idx rowid doc =
     (case find (\<lambda>m. m_id m = rowid) content of
        None \<Rightarrow> idx
      | Some m \<Rightarrow> remove1 (fts_of m) idx @ [doc])"

subsection \<open>The triggers of \<open>init_database\<close>\<close>

text \<open>
  Each trigger runs \<open>AFTER\<close> its statement, on the table as the statement left it, inside
  the statement's transaction.
\<close>

definition memories_fts_insert :: "memory_row \<Rightarrow> database \<Rightarrow> database" where
  "memories_fts_insert new db =
     db\<lparr>fts_index := fts_insert (fts_index db) (fts_of new)\<rparr>"

definition memories_fts_update :: "memory_row \<Rightarrow> database \<Rightarrow> database" where
  "memories_fts_update new db =
     db\<lparr>fts_index := fts_update (memories db) (fts_index db) (m_id new) (fts_of new)\<rparr>"

definition memories_fts_delete :: "memory_row \<Rightarrow> database \<Rightarrow> database" where
  "memories_fts_delete old db =
     db\<lparr>fts_index := fts_delete (memories db) (fts_index db) (m_id old)\<rparr>"

subsection \<open>\<open>create_memory\<close> and \<open>get_memory_by_id\<close>\<close>

text \<open>\<open>AUTOINCREMENT\<close>: one more than the largest rowid ever used.\<close>

definition next_rowid :: "database \<Rightarrow> int" where
  "next_rowid db = foldr max (map m_id (memories db)) (sqlite_sequence db) + 1"

text \<open>
  The \<open>INSERT\<close> checks the constraints of the table (\<open>NOT NULL\<close> on \<open>title\<close>,
  \<open>media_path\<close> and \<open>media_type\<close>, the \<open>CHECK\<close> on \<open>media_type\<close>); a violation raises
  \<open>IntegrityError\<close>, which \<open>create_memory\<close> re-raises. \<open>now\<close> is \<open>CURRENT_TIMESTAMP\<close>.
\<close>

definition create_memory ::
  "nat \<Rightarrow> database \<Rightarrow> sql_value \<Rightarrow> sql_value \<Rightarrow> sql_value \<Rightarrow> sql_value \<Rightarrow> sql_value
     \<Rightarrow> sql_value \<Rightarrow> sql_value \<Rightarrow> sql_value \<Rightarrow> py_exception + (int \<times> database)" where
  "create_memory now db title txt date location sentiment media_path media_type person =
     (if title = SqlNull then Inl (IntegrityError ''NOT NULL constraint failed: memories.title'')
      else if media_path = SqlNull
        then Inl (IntegrityError ''NOT NULL constraint failed: memories.media_path'')
      else if media_type = SqlNull
        then Inl (IntegrityError ''NOT NULL constraint failed: memories.media_type'')
      else if media_type \<noteq> SqlText ''image'' \<and> media_type \<noteq> SqlText ''audio''
        then Inl (IntegrityError ''CHECK constraint failed'')
      else
        (let memory_id = next_rowid db;
             new = \<lparr>m_id = memory_id, m_title = title, m_text = txt, m_date = date,
                    m_location = location, m_sentiment = sentiment,
                    m_media_path = media_path, m_media_type = media_type,
                    m_person = person, m_created_at = now, m_updated_at = now\<rparr>;
             db1 = db\<lparr>memories := memories db @ [new], sqlite_sequence := memory_id\<rparr>;
             db2 = memories_fts_insert new db1
         in Inr (memory_id, db2)))"

definition get_memory_by_id :: "database \<Rightarrow> int \<Rightarrow> memory_row option" where
  "get_memory_by_id db memory_id = find (\<lambda>m. m_id m = memory_id) (memories db)"

subsection \<open>\<open>get_all_memories\<close> and the listing endpoint\<close>

text \<open>
  \<open>LIMIT ?\<close>: a negative limit is no limit. \<open>OFFSET ?\<close>: a negative offset is zero.
\<close>

definition sql_limit :: "int \<Rightarrow> 'a list \<Rightarrow> 'a list" where
  "sql_limit n xs = (if n < 0 then xs else take (nat n) xs)"

definition sql_limit_offset :: "int \<Rightarrow> int \<Rightarrow> 'a list \<Rightarrow> 'a list" where
  "sql_limit_offset limit offset xs = sql_limit limit (drop (nat offset) xs)"

text \<open>
  \<open>ORDER BY created_at DESC\<close>. \<open>init_database\<close> creates the index
  \<open>idx_memories_created_at\<close> on \<open>memories(created_at)\<close>; an entry of the index is the
  \<open>created_at\<close> of a row followed by its rowid, and the entries are kept in ascending
  order. The query is answered by walking that index backwards: the rows come by
  \<open>created_at\<close> descending and, for equal \<open>created_at\<close>, by id descending.
\<close>

definition idx_memories_created_at :: "memory_row list \<Rightarrow> memory_row list" where
  "idx_memories_created_at rows = sort_key (\<lambda>m. (m_created_at m, m_id m)) rows"

definition order_by_created_at_desc :: "memory_row list \<Rightarrow> memory_row list" where
  "order_by_created_at_desc rows = rev (idx_memories_created_at rows)"

definition get_all_memories :: "database \<Rightarrow> int \<Rightarrow> int \<Rightarrow> memory_row list" where
  "get_all_memories db limit offset =
     sql_limit_offset limit offset (order_by_created_at_desc (memories db))"

text \<open>
  app.py, \<open>list_memories\<close>: the same query on nine of the columns, each row turned into
  a dictionary.
\<close>

record listed_memory =
  l_id :: int
  l_title :: sql_value
  l_text :: sql_value
  l_date :: sql_value
  l_location :: sql_value
  l_sentiment :: sql_value
  l_media_path :: sql_value
  l_media_type :: sql_value
  l_created_at :: nat

definition listed :: "memory_row \<Rightarrow> listed_memory" where
  "listed m =
     \<lparr>l_id = m_id m, l_title = m_title m, l_text = m_text m, l_date = m_date m,
      l_location = m_location m, l_sentiment = m_sentiment m,
      l_media_path = m_media_path m, l_media_type = m_media_type m,
      l_created_at = m_created_at m\<rparr>"

definition list_memories :: "database \<Rightarrow> int \<Rightarrow> int \<Rightarrow> listed_memory list" where
  "list_memories db limit offset =
     map listed (sql_limit_offset limit offset (order_by_created_at_desc (memories db)))"

subsection \<open>\<open>update_memory\<close>\<close>

definition allowed_fields :: "string list" where
  "allowed_fields = [''title'', ''text'', ''date'', ''location'', ''sentiment'', ''person'']"

text \<open>One \<open>key = ?\<close> clause of the \<open>UPDATE\<close>, for a key of the allow-list.\<close>

definition set_column :: "memory_row \<Rightarrow> string \<times> sql_value \<Rightarrow> memory_row" where
  "set_column r kv =
     (let k = fst kv; v = snd kv
      in if k = ''title'' then r\<lparr>m_title := v\<rparr>
         else if k = ''text'' then r\<lparr>m_text := v\<rparr>
         else if k = ''date'' then r\<lparr>m_date := v\<rparr>
         else if k = ''location'' then r\<lparr>m_location := v\<rparr>
         else if k = ''sentiment'' then r\<lparr>m_sentiment := v\<rparr>
         else if k = ''person'' then r\<lparr>m_person := v\<rparr>
         else r)"

text \<open>
  \<open>kwargs\<close> is the keyword dictionary, in insertion order. With no clause to set the
  function returns \<open>False\<close> before any statement. Otherwise the \<open>UPDATE\<close> runs: no row
  with the id gives \<open>rowcount = 0\<close>; a row that would get a \<open>NULL\<close> title raises.
\<close>

definition update_memory ::
  "nat \<Rightarrow> database \<Rightarrow> int \<Rightarrow> (string \<times> sql_value) list \<Rightarrow> py_exception + (py_value \<times> database)" where
  "update_memory now db memory_id kwargs =
     (let set_clauses = filter (\<lambda>kv. fst kv \<in> set allowed_fields) kwargs
      in if set_clauses = [] then Inr (PyBool False, db)
         else
           (case find (\<lambda>m. m_id m = memory_id) (memories db) of
              None \<Rightarrow> Inr (PyBool False, db)
            | Some old \<Rightarrow>
                (let new = (foldl set_column old set_clauses)\<lparr>m_updated_at := now\<rparr>
                 in if m_title new = SqlNull
                    then Inl (IntegrityError ''NOT NULL constraint failed: memories.title'')
                    else
                      (let db1 = db\<lparr>memories :=
                                      map (\<lambda>m. if m_id m = memory_id then new else m) (memories db)\<rparr>;
                           db2 = memories_fts_update new db1
                       in Inr (PyBool True, db2)))))"



subsection \<open>\<open>delete_memory\<close>\<close>

text \<open>
  The file system is the set of paths that exist; \<open>remove_ok\<close> tells whether
  \<open>os.remove\<close> succeeds on a path (its failure is caught and printed). A media path that
  is not a non-empty text is falsy and nothing is removed.
\<close>

definition remove_media :: "(string \<Rightarrow> bool) \<Rightarrow> string set \<Rightarrow> sql_value \<Rightarrow> string set" where
  "remove_media remove_ok fs media_path =
     (case media_path of
        SqlText p \<Rightarrow> if p \<noteq> [] \<and> p \<in> fs \<and> remove_ok p then fs - {p} else fs
      | _ \<Rightarrow> fs)"

definition delete_memory ::
  "(string \<Rightarrow> bool) \<Rightarrow> database \<times> string set \<Rightarrow> int \<Rightarrow> py_value \<times> database \<times> string set" where
  "delete_memory remove_ok st memory_id =
     (let db = fst st; fs = snd st
      in case find (\<lambda>m. m_id m = memory_id) (memories db) of
           None \<Rightarrow> (PyBool False, db, fs)
         | Some row \<Rightarrow>
             (let db1 = db\<lparr>memories := filter (\<lambda>m. m_id m \<noteq> memory_id) (memories db)\<rparr>;
                  db2 = memories_fts_delete row db1
              in (PyBool True, db2, remove_media remove_ok fs (m_media_path row))))"

subsection \<open>\<open>search_memories\<close>\<close>

text \<open>
  The FTS5 functions the query calls. \<open>fts5_match q\<close> compiles the \<open>MATCH\<close> expression
  (\<open>None\<close>: a syntax error) into a test on indexed documents; \<open>fts5_rank\<close> is the value of
  \<open>rank\<close> (smaller is better); \<open>fts5_snippet q v n\<close> is \<open>snippet()\<close> on a column whose
  content is \<open>v\<close>, with at most \<open>n\<close> tokens, \<open>None\<close> for \<open>NULL\<close>.
\<close>

record fts5_engine =
  fts5_match :: "string \<Rightarrow> (fts_doc \<Rightarrow> bool) option"
  fts5_rank :: "string \<Rightarrow> fts_doc \<Rightarrow> real"
  fts5_snippet :: "string \<Rightarrow> sql_value \<Rightarrow> nat \<Rightarrow> string option"

text \<open>
  Column \<open>i\<close> of \<open>memories_fts\<close>, counted from zero in the order of its declaration
  (\<open>title, text, person\<close>), read from the content row.
\<close>

definition fts_column :: "memory_row \<Rightarrow> nat \<Rightarrow> sql_value" where
  "fts_column m i =
     (if i = 0 then m_title m else if i = 1 then m_text m
      else if i = 2 then m_person m else SqlNull)"

record search_result =
  r_id :: int
  r_title :: sql_value
  r_snippet :: sql_value
  r_date :: sql_value
  r_sentiment :: sql_value
  r_media_type :: sql_value
  r_media_path :: sql_value

fun py_join :: "string \<Rightarrow> string list \<Rightarrow> string" where
  "py_join sep [] = []"
| "py_join sep [x] = x"
| "py_join sep (x # y # ys) = x @ sep @ py_join sep (y # ys)"

text \<open>\<open>if row[...]: snippet_parts.append(f"<label>{row[...]}")\<close>\<close>

definition snippet_part :: "string \<Rightarrow> string option \<Rightarrow> string list" where
  "snippet_part label sn =
     (case sn of None \<Rightarrow> [] | Some s \<Rightarrow> if s = [] then [] else [label @ s])"

definition combine_snippets :: "sql_value \<Rightarrow> string option \<Rightarrow> string option \<Rightarrow> sql_value" where
  "combine_snippets title title_snippet text_snippet =
     (let snippet_parts = snippet_part ''Title: '' title_snippet
                          @ snippet_part ''Text: '' text_snippet
      in if snippet_parts \<noteq> [] then SqlText (py_join '' | '' snippet_parts) else title)"

text \<open>
  One result row: \<open>title_snippet\<close> is \<open>snippet(memories_fts, 1, ..., 32)\<close> and
  \<open>text_snippet\<close> is \<open>snippet(memories_fts, 2, ..., 64)\<close>.
\<close>

definition search_row :: "fts5_engine \<Rightarrow> string \<Rightarrow> memory_row \<Rightarrow> search_result" where
  "search_row eng query m =
     (let title_snippet = fts5_snippet eng query (fts_column m 1) 32;
          text_snippet = fts5_snippet eng query (fts_column m 2) 64
      in \<lparr>r_id = m_id m, r_title = m_title m,
          r_snippet = combine_snippets (m_title m) title_snippet text_snippet,
          r_date = m_date m, r_sentiment = m_sentiment m,
          r_media_type = m_media_type m, r_media_path = m_media_path m\<rparr>)"

definition first_occurrences :: "'a list \<Rightarrow> 'a list" where
  "first_occurrences xs = rev (remdups (rev xs))"

text \<open>
  The query: the rowids of the indexed documents that match, best rank first, each once,
  joined with \<open>memories\<close> on the id, cut at \<open>limit\<close>. Documents of equal rank are
  kept in the order of the index here; the engine may order them otherwise, and no
  property below depends on that order.
\<close>

definition matching_rows :: "fts5_engine \<Rightarrow> database \<Rightarrow> string \<Rightarrow> (fts_doc \<Rightarrow> bool) \<Rightarrow> memory_row list" where
  "matching_rows eng db query matches =
     (let hits = sort_key (fts5_rank eng query) (filter matches (fts_index db));
          rowids = first_occurrences (map f_rowid hits)
      in List.map_filter (\<lambda>r. find (\<lambda>m. m_id m = r) (memories db)) rowids)"

definition search_memories ::
  "fts5_engine \<Rightarrow> database \<Rightarrow> string \<Rightarrow> int \<Rightarrow> py_exception + search_result list" where
  "search_memories eng db query limit =
     (case fts5_match eng query of
        None \<Rightarrow> Inl (OperationalError ''fts5: syntax error'')
      | Some matches \<Rightarrow>
          Inr (map (search_row eng query) (sql_limit limit (matching_rows eng db query matches))))"

text \<open>app.py, \<open>search_memory\<close>: the endpoint, with the default limit of \<open>search_memories\<close>.\<close>

definition search_memory :: "fts5_engine \<Rightarrow> database \<Rightarrow> string \<Rightarrow> py_exception + search_result list" where
  "search_memory eng db q =
     (if py_strip q = [] then Inl (HTTPException 400 ''Search query cannot be empty'')
      else
        (case search_memories eng db (py_strip q) 20 of
           Inl e \<Rightarrow> Inl (HTTPException 500 (''Search failed: '' @ exc_str e))
         | Inr results \<Rightarrow> Inr results))"

section \<open>ocr_utils.py and asr_utils.py: text extraction\<close>

text \<open>\<open>text.split(sep)\<close> for a one-character separator: always at least one piece.\<close>

fun py_split :: "char \<Rightarrow> string \<Rightarrow> string list" where
  "py_split sep [] = [[]]"
| "py_split sep (c # cs) =
     (if c = sep then [] # py_split sep cs
      else (case py_split sep cs of
              w # ws \<Rightarrow> (c # w) # ws
            | [] \<Rightarrow> [[c]]))"

text \<open>\<open>'  ' in cleaned\<close> and \<open>cleaned.replace('  ', ' ')\<close>.\<close>

fun has_double_space :: "string \<Rightarrow> bool" where
  "has_double_space (a # b # cs) =
     ((a = CHR '' '' \<and> b = CHR '' '') \<or> has_double_space (b # cs))"
| "has_double_space cs = False"

fun replace_double_space :: "string \<Rightarrow> string" where
  "replace_double_space (a # b # cs) =
     (if a = CHR '' '' \<and> b = CHR '' '' then CHR '' '' # replace_double_space cs
      else a # replace_double_space (b # cs))"
| "replace_double_space cs = cs"

text \<open>The loop \<open>while '  ' in cleaned: cleaned = cleaned.replace('  ', ' ')\<close>.\<close>

function collapse_spaces :: "string \<Rightarrow> string" where
  "collapse_spaces cleaned =
     (if has_double_space cleaned then collapse_spaces (replace_double_space cleaned)
      else cleaned)"
  by pat_completeness auto
termination
proof (relation "measure length")
  show "wf (measure length)" by simp
next
  fix cleaned :: string
  assume d: "has_double_space cleaned"
  have shorter: "length (replace_double_space t) \<le> length t
                 \<and> (has_double_space t \<longrightarrow> length (replace_double_space t) < length t)" for t
    by (induction t rule: replace_double_space.induct) auto
  show "(replace_double_space cleaned, cleaned) \<in> measure length"
    using shorter [of cleaned] d by simp
qed

definition clean_extracted_text :: "string \<Rightarrow> string" where
  "clean_extracted_text txt =
     (if txt = [] then []
      else
        (let lines = map py_strip (py_split (CHR 0x0A) txt);
             lines = filter (\<lambda>line. line \<noteq> []) lines;
             cleaned = py_join '' '' lines
         in py_strip (collapse_spaces cleaned)))"

text \<open>
  What lies outside the repository. \<open>tesseract_version\<close>: \<open>get_tesseract_version()\<close>
  returns. \<open>image_to_string\<close>: the outcome of preprocessing the image at a path and running
  Tesseract on it, \<open>Inl\<close> the text of the exception raised, \<open>Inr\<close> the recognised text.
  \<open>exifread_process_file\<close>: the tags of the file, \<open>None\<close> when reading raises. \<open>whisper\<close>: the outcome
  of loading the model and transcribing the file at a path, \<open>Inr\<close> being \<open>result["text"]\<close>.
  \<open>uuid4\<close> and \<open>path_suffix\<close>: the generated name and
  \<open>Path(filename).suffix.lower()\<close>.
\<close>

record extraction_env =
  tesseract_version :: bool
  image_to_string :: "string \<Rightarrow> string + string"
  exifread_process_file :: "string \<Rightarrow> exif_tags option"
  whisper :: "string \<Rightarrow> string + string"
  uuid4 :: string
  path_suffix :: "string \<Rightarrow> string"

definition extract_text_from_image :: "extraction_env \<Rightarrow> string \<Rightarrow> string" where
  "extract_text_from_image env image_path =
     (if \<not> tesseract_version env then ''OCR not available - Tesseract not installed''
      else
        (case image_to_string env image_path of
           Inl e \<Rightarrow> ''Text extraction failed: '' @ e
         | Inr extracted_text \<Rightarrow> clean_extracted_text extracted_text))"

text \<open>\<open>os.path.exists\<close> is membership in the set of existing paths.\<close>

definition transcribe_audio :: "extraction_env \<Rightarrow> string set \<Rightarrow> string \<Rightarrow> string" where
  "transcribe_audio env fs audio_path =
     (if audio_path \<notin> fs
      then ''Transcription failed: '' @ (''Audio file not found: '' @ audio_path)
      else
        (case whisper env audio_path of
           Inl e \<Rightarrow> ''Transcription failed: '' @ e
         | Inr result_text \<Rightarrow> py_strip result_text))"

section \<open>app.py: \<open>upload_memory\<close>\<close>

record upload_request =
  u_content_type :: "string option"
  u_filename :: string
  u_title :: string
  u_person :: "string option"

record upload_response =
  resp_id :: int
  resp_title :: string
  resp_text :: string
  resp_date :: "string option"
  resp_location :: "string option"
  resp_sentiment :: real
  resp_media_path :: string
  resp_media_type :: string

definition dict_get :: "('k \<rightharpoonup> 'v option) \<Rightarrow> 'k \<Rightarrow> 'v option" where
  "dict_get d k = (case d k of None \<Rightarrow> None | Some v \<Rightarrow> v)"

definition opt_text :: "string option \<Rightarrow> sql_value" where
  "opt_text v = (case v of None \<Rightarrow> SqlNull | Some s \<Rightarrow> SqlText s)"

text \<open>
  The handler of \<open>except Exception as e\<close>: the saved file, if there is one, is unlinked
  and status 500 is raised; the store is as before the request.
\<close>

definition upload_failed ::
  "py_exception \<Rightarrow> database \<Rightarrow> string set
     \<Rightarrow> (py_exception + upload_response) \<times> database \<times> string set" where
  "upload_failed e db fs = (Inl (HTTPException 500 (''Upload failed: '' @ exc_str e)), db, fs)"

text \<open>
  \<open>safe_filename = f"{uuid.uuid4()}{file_extension}"\<close> and
  \<open>file_path = UPLOAD_DIR / safe_filename\<close>.
\<close>

definition safe_filename :: "extraction_env \<Rightarrow> upload_request \<Rightarrow> string" where
  "safe_filename env req = uuid4 env @ path_suffix env (u_filename req)"

definition upload_file_path :: "extraction_env \<Rightarrow> upload_request \<Rightarrow> string" where
  "upload_file_path env req = ''uploads/'' @ safe_filename env req"

text \<open>
  The block \<open>if is_image: ... elif is_audio: ...\<close>, entered with one of the two true:
  the extracted text, date and location.
\<close>

definition extract_content ::
  "extraction_env \<Rightarrow> string set \<Rightarrow> bool \<Rightarrow> string \<Rightarrow> string \<times> string option \<times> string option" where
  "extract_content env fs is_image file_path =
     (if is_image
      then (let extracted_text = extract_text_from_image env file_path;
                exif_data = extract_exif_data (exifread_process_file env) file_path
            in (extracted_text, dict_get exif_data ''date'', dict_get exif_data ''location''))
      else (transcribe_audio env fs file_path, None, None))"

text \<open>
  The state is the store and the set of existing files; \<open>write_error\<close> is the message
  of the exception raised while writing the upload to disk, \<open>None\<close> when the write
  succeeds. The exceptions raised inside the \<open>try\<close>, those of the validation included, all
  reach the handler above.
\<close>

definition upload_memory ::
  "extraction_env \<Rightarrow> sentiment_engines \<Rightarrow> nat \<Rightarrow> string option \<Rightarrow> database \<times> string set
     \<Rightarrow> upload_request \<Rightarrow> (py_exception + upload_response) \<times> database \<times> string set" where
  "upload_memory env eng now write_error st req =
     (let db = fst st; fs = snd st
      in case u_content_type req of
           None \<Rightarrow> upload_failed (HTTPException 400 ''File type not detected'') db fs
         | Some ct \<Rightarrow>
             if ct = [] then upload_failed (HTTPException 400 ''File type not detected'') db fs
             else
               (let is_image = startswith ct ''image/'';
                    is_audio = startswith ct ''audio/''
                in if \<not> (is_image \<or> is_audio)
                   then upload_failed
                          (HTTPException 400
                             ''Only image (JPEG, PNG) and audio (MP3, WAV) files are supported'')
                          db fs
                   else
                     (let file_path = upload_file_path env req
                      in case write_error of
                           Some msg \<Rightarrow> upload_failed (OSError msg) db (fs - {file_path})
                         | None \<Rightarrow>
                           (let fs1 = insert file_path fs;
                                (extracted_text, extracted_date, extracted_location) =
                                   extract_content env fs1 is_image file_path;
                                sentiment_score = fst (upload_sentiment eng extracted_text);
                                media_path = ''/media/uploads/'' @ safe_filename env req;
                                media_type = (if is_image then ''image'' else ''audio'')
                            in case create_memory now db (SqlText (u_title req))
                                      (SqlText extracted_text) (opt_text extracted_date)
                                      (opt_text extracted_location) (SqlReal sentiment_score)
                                      (SqlText media_path) (SqlText media_type)
                                      (opt_text (u_person req)) of
                                 Inl e \<Rightarrow> upload_failed e db (fs1 - {file_path})
                               | Inr (memory_id, db') \<Rightarrow>
                                   (Inr \<lparr>resp_id = memory_id, resp_title = u_title req,
                                         resp_text = extracted_text, resp_date = extracted_date,
                                         resp_location = extracted_location,
                                         resp_sentiment = sentiment_score,
                                         resp_media_path = media_path,
                                         resp_media_type = media_type\<rparr>,
                                    db', fs1)))))"

text \<open>An environment in which every extractor fails, and two requests.\<close>

definition failing_env :: extraction_env where
  "failing_env =
     \<lparr>tesseract_version = False,
      image_to_string = (\<lambda>p. Inl ''no image''),
      exifread_process_file = (\<lambda>p. None),
      whisper = (\<lambda>p. Inl ''no model''),
      uuid4 = ''u1'',
      path_suffix = (\<lambda>f. ''.jpg'')\<rparr>"

text \<open>An environment in which Tesseract finds only blanks on the page.\<close>

definition blank_page_env :: extraction_env where
  "blank_page_env =
     failing_env\<lparr>tesseract_version := True, image_to_string := (\<lambda>p. Inr ''  '')\<rparr>"

definition photo_request :: upload_request where
  "photo_request =
     \<lparr>u_content_type = Some ''image/jpeg'', u_filename = ''photo.JPG'',
      u_title = ''Summer Trip'', u_person = None\<rparr>"

definition voice_request :: upload_request where
  "voice_request =
     \<lparr>u_content_type = Some ''audio/wav'', u_filename = ''note.wav'',
      u_title = ''Voice Note'', u_person = None\<rparr>"

section \<open>The pairing of records and index documents\<close>

definition index_in_sync :: "database \<Rightarrow> bool" where
  "index_in_sync db =
     (distinct (map m_id (memories db)) \<and> distinct (map f_rowid (fts_index db))
      \<and> set (map f_rowid (fts_index db)) = set (map m_id (memories db)))"

section \<open>A small engine and a small store to evaluate on\<close>

text \<open>
  A stand-in for FTS5 on which the functions above can be run: tokens are the
  space-separated words, a query matches a document that holds each of its words in some
  column, no query without a word compiles, all ranks are equal, and a snippet is the whole
  column with the query's words marked.
\<close>

fun split_words :: "string \<Rightarrow> string \<Rightarrow> string list" where
  "split_words acc [] = (if acc = [] then [] else [rev acc])"
| "split_words acc (c # cs) =
     (if c = CHR '' ''
      then (if acc = [] then split_words [] cs else rev acc # split_words [] cs)
      else split_words (c # acc) cs)"

definition words_of :: "sql_value \<Rightarrow> string list" where
  "words_of v = (case v of SqlText s \<Rightarrow> split_words [] s | _ \<Rightarrow> [])"

definition word_engine :: fts5_engine where
  "word_engine =
     \<lparr>fts5_match = (\<lambda>q. if split_words [] q = [] then None
                        else Some (\<lambda>d. list_all
                               (\<lambda>w. w \<in> set (words_of (f_title d) @ words_of (f_text d)
                                              @ words_of (f_person d)))
                               (split_words [] q))),
      fts5_rank = (\<lambda>q d. 0),
      fts5_snippet = (\<lambda>q v n. case v of
                        SqlText s \<Rightarrow>
                          Some (py_join '' ''
                                 (map (\<lambda>w. if w \<in> set (split_words [] q)
                                            then ''<mark>'' @ w @ ''</mark>'' else w)
                                    (split_words [] s)))
                      | _ \<Rightarrow> None)\<rparr>"

definition summer_trip :: memory_row where
  "summer_trip =
     \<lparr>m_id = 1, m_title = SqlText ''Summer Trip'',
      m_text = SqlText ''We visited the lake and it was wonderful'',
      m_date = SqlNull, m_location = SqlNull, m_sentiment = SqlReal (1 / 2),
      m_media_path = SqlText ''/media/uploads/a.jpg'', m_media_type = SqlText ''image'',
      m_person = SqlNull, m_created_at = 100, m_updated_at = 100\<rparr>"

definition summer_db :: database where
  "summer_db = \<lparr>memories = [summer_trip], fts_index = [fts_of summer_trip], sqlite_sequence = 1\<rparr>"

definition lake_house :: memory_row where
  "lake_house =
     \<lparr>m_id = 1, m_title = SqlText ''lake house'',
      m_text = SqlText ''the lake is cold'',
      m_date = SqlNull, m_location = SqlNull, m_sentiment = SqlReal 0,
      m_media_path = SqlText ''/media/uploads/b.jpg'', m_media_type = SqlText ''image'',
      m_person = SqlNull, m_created_at = 100, m_updated_at = 100\<rparr>"

definition lake_db :: database where
  "lake_db = \<lparr>memories = [lake_house], fts_index = [fts_of lake_house], sqlite_sequence = 1\<rparr>"

text \<open>Two records created in the same second and one created a second later.\<close>

definition first_note :: memory_row where
  "first_note = summer_trip\<lparr>m_id := 1, m_title := SqlText ''First''\<rparr>"

definition second_note :: memory_row where
  "second_note = summer_trip\<lparr>m_id := 2, m_title := SqlText ''Second''\<rparr>"

definition later_note :: memory_row where
  "later_note =
     summer_trip\<lparr>m_id := 3, m_title := SqlText ''Later'', m_created_at := 101,
                  m_updated_at := 101\<rparr>"

definition same_second_db :: database where
  "same_second_db =
     \<lparr>memories = [first_note, second_note, later_note],
      fts_index = [fts_of first_note, fts_of second_note, fts_of later_note],
      sqlite_sequence = 3\<rparr>"

text \<open>The store after \<open>delete_memory(1)\<close> on \<open>summer_db\<close>.\<close>

definition after_delete_db :: database where
  "after_delete_db = \<lparr>memories = [], fts_index = [fts_of summer_trip], sqlite_sequence = 1\<rparr>"

text \<open>The store after \<open>update_memory(1, title="Mountain Cabin")\<close> on \<open>summer_db\<close> at time 200.\<close>

definition mountain_cabin :: memory_row where
  "mountain_cabin = summer_trip\<lparr>m_title := SqlText ''Mountain Cabin'', m_updated_at := 200\<rparr>"

definition after_update_db :: database where
  "after_update_db =
     \<lparr>memories = [mountain_cabin], fts_index = [fts_of summer_trip, fts_of mountain_cabin],
      sqlite_sequence = 1\<rparr>"

section \<open>Properties\<close>

subsection \<open>EXIF extraction\<close>

lemma dom_exif_none: "dom exif_none = exif_keys"
  by (auto simp: exif_none_def exif_keys_def split: if_splits)

lemma dom_extract_exif_data: "dom (extract_exif_data exifread p) = exif_keys"
proof (cases "exifread p")
  case None
  then show ?thesis by (simp add: extract_exif_data_def dom_exif_none)
next
  case (Some tags)
  have ins: "\<And>k. k \<in> exif_keys \<Longrightarrow> insert k exif_keys = exif_keys"
    by auto
  have k: "''date'' \<in> exif_keys" "''location'' \<in> exif_keys"
    "''camera_make'' \<in> exif_keys" "''camera_model'' \<in> exif_keys"
    by (simp_all add: exif_keys_def)
  show ?thesis
    using Some
    by (simp add: extract_exif_data_def Let_def dom_exif_none ins k
        split: option.splits)
qed

text \<open>
  Claim C10: for every image path, readable or not and with or without EXIF data,
  \<open>extract_exif_data\<close> returns a dictionary whose keys are exactly \<open>date\<close>,
  \<open>location\<close>, \<open>camera_make\<close> and \<open>camera_model\<close>, each value a string or \<open>None\<close>;
  when reading the file fails, all four values are \<open>None\<close> and nothing is raised.
\<close>

theorem C10_extract_exif_data_total:
  "dom (extract_exif_data exifread p) = {''date'', ''location'', ''camera_make'', ''camera_model''}
   \<and> (exifread p = None \<longrightarrow>
        (\<forall>k \<in> {''date'', ''location'', ''camera_make'', ''camera_model''}.
           extract_exif_data exifread p k = Some None))"
proof -
  have "dom (extract_exif_data exifread p) = exif_keys"
    by (rule dom_extract_exif_data)
  moreover have "exifread p = None \<longrightarrow>
      (\<forall>k \<in> exif_keys. extract_exif_data exifread p k = Some None)"
    by (auto simp: extract_exif_data_def exif_none_def exif_keys_def)
  ultimately show ?thesis by (simp add: exif_keys_def)
qed

theorem C10_extract_exif_data_total_witness:
  "dom (extract_exif_data (\<lambda>p. None) ''missing.jpg'')
     = {''date'', ''location'', ''camera_make'', ''camera_model''}
   \<and> extract_exif_data (\<lambda>p. None) ''missing.jpg'' ''date'' = Some None
   \<and> extract_exif_data (\<lambda>p. None) ''missing.jpg'' ''location'' = Some None
   \<and> extract_exif_data (\<lambda>p. None) ''missing.jpg'' ''camera_make'' = Some None
   \<and> extract_exif_data (\<lambda>p. None) ''missing.jpg'' ''camera_model'' = Some None"
  using C10_extract_exif_data_total [of "\<lambda>p. None" "''missing.jpg''"] by simp

subsection \<open>Sentiment scoring\<close>

lemma py_round2_bounds:
  assumes "- 1 \<le> x" "x \<le> 1"
  shows "- 1 \<le> py_round2 x \<and> py_round2 x \<le> 1"
proof -
  define y where "y = x * 100"
  define f where "f = \<lfloor>y\<rfloor>"
  define n where "n = (if y - of_int f < 1 / 2 then f
                 else if 1 / 2 < y - of_int f then f + 1
                 else if even f then f else f + 1)"
  have yb: "- 100 \<le> y" "y \<le> 100" using assms by (simp_all add: y_def)
  have fl: "- 100 \<le> f" using yb(1) by (simp add: f_def le_floor_iff)
  have fu: "f \<le> 100" using yb(2) unfolding f_def by (simp add: floor_le_iff)
  have top: "f = 100 \<Longrightarrow> y - of_int f = 0"
  proof -
    assume "f = 100"
    moreover have "of_int f \<le> y" by (simp add: f_def)
    ultimately show ?thesis using yb(2) by simp
  qed
  have nl: "- 100 \<le> n" using fl by (simp add: n_def)
  have nu: "n \<le> 100"
  proof (cases "f = 100")
    case True
    then show ?thesis using top by (simp add: n_def)
  next
    case False
    then show ?thesis using fu by (simp add: n_def)
  qed
  have r: "py_round2 x = of_int n / 100"
    by (simp add: py_round2_def Let_def y_def f_def n_def)
  have "- 1 \<le> (of_int n :: real) / 100" using nl by simp
  moreover have "(of_int n :: real) / 100 \<le> 1" using nu by simp
  ultimately show ?thesis by (simp add: r)
qed

lemma avg_bounds:
  "- 1 \<le> a \<and> a \<le> 1 \<Longrightarrow> - 1 \<le> b \<and> b \<le> 1
   \<Longrightarrow> - 1 \<le> (a + b) / 2 \<and> (a + b) / 2 \<le> (1::real)"
  by simp

lemma analyze_sentiment_bounds:
  assumes "scores_bounded eng"
  shows "- 1 \<le> fst (analyze_sentiment eng t) \<and> fst (analyze_sentiment eng t) \<le> 1"
proof -
  have tb: "\<And>s. - 1 \<le> fst (get_textblob_sentiment eng s)
                \<and> fst (get_textblob_sentiment eng s) \<le> 1"
    using assms
    by (auto simp: scores_bounded_def get_textblob_sentiment_def split: option.splits)
  have vd: "\<And>s. - 1 \<le> fst (get_vader_sentiment eng s)
                \<and> fst (get_vader_sentiment eng s) \<le> 1"
    using assms
    by (auto simp: scores_bounded_def get_vader_sentiment_def split: option.splits)
  have avg: "\<And>s. - 1 \<le> (fst (get_textblob_sentiment eng s) + fst (get_vader_sentiment eng s)) / 2
               \<and> (fst (get_textblob_sentiment eng s) + fst (get_vader_sentiment eng s)) / 2 \<le> 1"
    using tb vd avg_bounds by blast
  show ?thesis
    using py_round2_bounds [OF conjunct1 [OF avg] conjunct2 [OF avg]]
    by (auto simp: analyze_sentiment_def Let_def split_beta split: option.splits)
qed

lemma analyze_sentiment_blank:
  "t = None \<or> (\<exists>s. t = Some s \<and> py_strip s = []) \<Longrightarrow> analyze_sentiment eng t = (0, [])"
  by (auto simp: analyze_sentiment_def)

lemma upload_sentiment_bounds:
  assumes "scores_bounded eng"
  shows "- 1 \<le> fst (upload_sentiment eng x) \<and> fst (upload_sentiment eng x) \<le> 1"
  using analyze_sentiment_bounds [OF assms, of "Some x"]
  by (simp add: upload_sentiment_def split_beta)

lemma dropWhile_all_Nil: "(\<forall>c \<in> set (dropWhile P s). P c) \<Longrightarrow> dropWhile P s = []"
proof (rule ccontr)
  assume a: "\<forall>c \<in> set (dropWhile P s). P c" and n: "dropWhile P s \<noteq> []"
  have "\<not> P (hd (dropWhile P s))" using n by (rule hd_dropWhile)
  moreover have "hd (dropWhile P s) \<in> set (dropWhile P s)" using n by simp
  ultimately show False using a by blast
qed

lemma py_strip_empty_iff: "py_strip s = [] \<longleftrightarrow> (\<forall>c \<in> set s. py_isspace c)"
proof
  assume "py_strip s = []"
  then have "dropWhile py_isspace (rev (dropWhile py_isspace s)) = []"
    by (simp add: py_strip_def)
  then have "\<forall>c \<in> set (rev (dropWhile py_isspace s)). py_isspace c"
    by (simp only: dropWhile_eq_Nil_conv)
  then have "\<forall>c \<in> set (dropWhile py_isspace s). py_isspace c"
    by simp
  then have "dropWhile py_isspace s = []"
    by (rule dropWhile_all_Nil)
  then show "\<forall>c \<in> set s. py_isspace c"
    by (simp only: dropWhile_eq_Nil_conv)
next
  assume "\<forall>c \<in> set s. py_isspace c"
  then have d: "dropWhile py_isspace s = []"
    by (simp only: dropWhile_eq_Nil_conv)
  show "py_strip s = []"
    unfolding py_strip_def d by simp
qed

lemma py_strip_last: "py_strip s \<noteq> [] \<Longrightarrow> \<not> py_isspace (last (py_strip s))"
proof -
  assume n: "py_strip s \<noteq> []"
  let ?b = "dropWhile py_isspace (rev (dropWhile py_isspace s))"
  have b: "?b \<noteq> []" using n by (simp add: py_strip_def)
  then have "\<not> py_isspace (hd ?b)" by (rule hd_dropWhile)
  moreover have "last (py_strip s) = hd ?b"
    using b by (simp add: py_strip_def last_rev)
  ultimately show ?thesis by simp
qed

lemma py_strip_strip_empty: "py_strip (py_strip s) = [] \<Longrightarrow> py_strip s = []"
proof (rule ccontr)
  assume e: "py_strip (py_strip s) = []" and n: "py_strip s \<noteq> []"
  have "\<not> py_isspace (last (py_strip s))" using n by (rule py_strip_last)
  moreover have "last (py_strip s) \<in> set (py_strip s)" using n by simp
  moreover have "\<forall>c \<in> set (py_strip s). py_isspace c"
    using e by (simp only: py_strip_empty_iff)
  ultimately show False by blast
qed

lemma not_blank_if_letter:
  "c \<in> set s \<Longrightarrow> \<not> py_isspace c \<Longrightarrow> py_strip s \<noteq> []"
  by (auto simp: py_strip_empty_iff)

lemma letter_T: "\<not> py_isspace (CHR ''T'')"
  by (simp add: py_isspace_def)

lemma letter_O: "\<not> py_isspace (CHR ''O'')"
  by (simp add: py_isspace_def)

lemma clean_extracted_text_blank:
  "py_strip (clean_extracted_text raw) = [] \<Longrightarrow> clean_extracted_text raw = []"
proof (cases "raw = []")
  case True
  then show ?thesis by (simp add: clean_extracted_text_def)
next
  case False
  obtain z where z: "clean_extracted_text raw = py_strip z"
    using False by (simp add: clean_extracted_text_def Let_def)
  assume "py_strip (clean_extracted_text raw) = []"
  then have "py_strip (py_strip z) = []" by (simp only: z)
  then have "py_strip z = []" by (rule py_strip_strip_empty)
  then show ?thesis by (simp only: z)
qed

lemma extract_text_from_image_blank:
  assumes "py_strip (extract_text_from_image env p) = []"
  shows "extract_text_from_image env p = []"
proof (cases "tesseract_version env")
  case False
  have "py_strip ''OCR not available - Tesseract not installed'' \<noteq> []"
    by (rule not_blank_if_letter [OF _ letter_O]) simp
  then show ?thesis
    using False assms by (simp add: extract_text_from_image_def)
next
  case True
  show ?thesis
  proof (cases "image_to_string env p")
    case (Inl e)
    have "py_strip (''Text extraction failed: '' @ e) \<noteq> []"
      by (rule not_blank_if_letter [OF _ letter_T]) simp
    then show ?thesis
      using True Inl assms by (simp add: extract_text_from_image_def)
  next
    case (Inr raw)
    have e: "extract_text_from_image env p = clean_extracted_text raw"
      using True Inr by (simp add: extract_text_from_image_def)
    show ?thesis
      using assms unfolding e by (rule clean_extracted_text_blank)
  qed
qed

lemma transcribe_audio_blank:
  assumes "py_strip (transcribe_audio env fs p) = []"
  shows "transcribe_audio env fs p = []"
proof -
  have m: "py_strip (''Transcription failed: '' @ e) \<noteq> []" for e
    by (rule not_blank_if_letter [OF _ letter_T]) simp
  show ?thesis
  proof (cases "p \<in> fs")
    case False
    then show ?thesis
      using assms m [of "''Audio file not found: '' @ p"] by (simp add: transcribe_audio_def)
  next
    case True
    show ?thesis
    proof (cases "whisper env p")
      case (Inl e)
      then show ?thesis
        using True assms m [of e] by (simp add: transcribe_audio_def)
    next
      case (Inr r)
      have e: "transcribe_audio env fs p = py_strip r"
        using True Inr by (simp add: transcribe_audio_def)
      show ?thesis
        using assms unfolding e by (rule py_strip_strip_empty)
    qed
  qed
qed

lemma extract_content_blank:
  assumes "extract_content env fs is_image p = (t, d, l)" "py_strip t = []"
  shows "t = []"
proof (cases is_image)
  case True
  then have "t = extract_text_from_image env p"
    using assms(1) by (simp add: extract_content_def Let_def)
  then show ?thesis using assms(2) extract_text_from_image_blank by simp
next
  case False
  then have "t = transcribe_audio env fs p"
    using assms(1) by (simp add: extract_content_def)
  then show ?thesis using assms(2) transcribe_audio_blank by simp
qed

text \<open>
  Claim C8: for every input text the computed sentiment score lies within \<open>[-1, 1]\<close>
  (the two scoring engines keeping to that range, as their contract says); for absent, empty
  or whitespace-only text the score is exactly \<open>0\<close> and no scoring engine is called. In
  an upload, \<open>analyze_sentiment\<close> itself is not called when the extracted text is empty,
  and the extracted text is never whitespace-only without being empty.
\<close>

theorem C8_sentiment_in_range_and_zero_on_blank:
  assumes "scores_bounded eng"
  shows "(- 1 \<le> fst (analyze_sentiment eng t) \<and> fst (analyze_sentiment eng t) \<le> 1)
       \<and> (- 1 \<le> fst (upload_sentiment eng x) \<and> fst (upload_sentiment eng x) \<le> 1)
       \<and> ((t = None \<or> (\<exists>s. t = Some s \<and> py_strip s = []))
            \<longrightarrow> analyze_sentiment eng t = (0, []))
       \<and> upload_sentiment eng [] = (0, [], [])
       \<and> (\<forall>extracted d l. extract_content env fs is_image p = (extracted, d, l)
              \<and> py_strip extracted = []
            \<longrightarrow> upload_sentiment eng extracted = (0, [], []))"
proof -
  have e: "upload_sentiment eng [] = (0, [], [])"
    by (simp add: upload_sentiment_def)
  have u: "\<forall>extracted d l. extract_content env fs is_image p = (extracted, d, l)
              \<and> py_strip extracted = []
            \<longrightarrow> upload_sentiment eng extracted = (0, [], [])"
    using extract_content_blank [of env fs is_image p] e by blast
  have bl: "(t = None \<or> (\<exists>s. t = Some s \<and> py_strip s = []))
            \<longrightarrow> analyze_sentiment eng t = (0, [])"
    using analyze_sentiment_blank [of t eng] by blast
  show ?thesis
    using analyze_sentiment_bounds [OF assms, of t] upload_sentiment_bounds [OF assms, of x]
      bl e u
    by (intro conjI) (elim conjE, assumption)+
qed

theorem C8_sentiment_in_range_and_zero_on_blank_witness:
  "scores_bounded (fixed_engines (1 / 2) (- (1 / 4)))
   \<and> py_strip ''  '' = []
   \<and> analyze_sentiment (fixed_engines (1 / 2) (- (1 / 4))) (Some ''  '') = (0, [])
   \<and> - 1 \<le> fst (upload_sentiment (fixed_engines (1 / 2) (- (1 / 4))) ''good day'')
   \<and> fst (upload_sentiment (fixed_engines (1 / 2) (- (1 / 4))) ''good day'') \<le> 1
   \<and> extract_content blank_page_env {} True ''uploads/u1.jpg'' = ([], None, None)
   \<and> upload_sentiment (fixed_engines (1 / 2) (- (1 / 4))) [] = (0, [], [])"
proof -
  let ?eng = "fixed_engines (1 / 2) (- (1 / 4))"
  have b: "scores_bounded ?eng"
    by (simp add: scores_bounded_def fixed_engines_def)
  have s: "py_strip ''  '' = []"
    by (simp add: py_strip_def py_isspace_def)
  have x: "extract_content blank_page_env {} True ''uploads/u1.jpg'' = ([], None, None)"
    by (simp add: extract_content_def blank_page_env_def failing_env_def
        extract_text_from_image_def Let_def clean_extracted_text_def py_strip_def
        py_isspace_def dict_get_def extract_exif_data_def exif_none_def)
  note t = C8_sentiment_in_range_and_zero_on_blank
             [OF b, of "Some ''  ''" "''good day''" blank_page_env "{}" True "''uploads/u1.jpg''"]
  have a: "analyze_sentiment ?eng (Some ''  '') = (0, [])"
    using t s by blast
  have r: "- 1 \<le> fst (upload_sentiment ?eng ''good day'')
           \<and> fst (upload_sentiment ?eng ''good day'') \<le> 1"
    using t by blast
  have u: "upload_sentiment ?eng [] = (0, [], [])"
    using t x by (simp add: py_strip_def)
  show ?thesis using b s a r x u by simp
qed

subsection \<open>Create, read back, search\<close>

lemma foldr_max_upper: "x \<in> set xs \<Longrightarrow> x \<le> foldr max xs (s::int)"
  by (induction xs) auto

lemma next_rowid_fresh: "m \<in> set (memories db) \<Longrightarrow> m_id m < next_rowid db"
  using foldr_max_upper [of "m_id m" "map m_id (memories db)" "sqlite_sequence db"]
  by (simp add: next_rowid_def)

lemma find_append_fresh:
  "\<forall>m \<in> set xs. \<not> P m \<Longrightarrow> P y \<Longrightarrow> find P (xs @ [y]) = Some y"
  by (induction xs) auto

lemma create_memory_Inr:
  assumes "create_memory now db title txt date location sentiment media_path media_type person
             = Inr (i, db')"
  shows "i = next_rowid db"
    and "memories db' = memories db @
           [\<lparr>m_id = i, m_title = title, m_text = txt, m_date = date,
             m_location = location, m_sentiment = sentiment,
             m_media_path = media_path, m_media_type = media_type,
             m_person = person, m_created_at = now, m_updated_at = now\<rparr>]"
    and "fts_index db' = fts_index db @
           [\<lparr>f_rowid = i, f_title = title, f_text = txt, f_person = person\<rparr>]"
    and "sqlite_sequence db' = i"
  using assms
  by (auto simp: create_memory_def Let_def memories_fts_insert_def fts_insert_def fts_of_def
      split: if_splits)

lemma get_after_create:
  assumes "create_memory now db title txt date location sentiment media_path media_type person
             = Inr (i, db')"
  shows "get_memory_by_id db' i =
           Some \<lparr>m_id = i, m_title = title, m_text = txt, m_date = date,
             m_location = location, m_sentiment = sentiment,
             m_media_path = media_path, m_media_type = media_type,
             m_person = person, m_created_at = now, m_updated_at = now\<rparr>"
proof -
  have fresh: "\<forall>m \<in> set (memories db). \<not> m_id m = i"
  proof
    fix m assume "m \<in> set (memories db)"
    then have "m_id m < next_rowid db" by (rule next_rowid_fresh)
    then show "\<not> m_id m = i" using create_memory_Inr(1) [OF assms] by simp
  qed
  show ?thesis
    unfolding get_memory_by_id_def create_memory_Inr(2) [OF assms]
    by (rule find_append_fresh [OF fresh]) simp
qed












subsection \<open>Update\<close>



















lemma summer_get: "get_memory_by_id summer_db 1 = Some summer_trip"
  by (simp add: get_memory_by_id_def summer_db_def summer_trip_def)



subsection \<open>Delete\<close>

lemma find_filter_removed: "find (\<lambda>m. m_id m = i) (filter (\<lambda>m. m_id m \<noteq> i) rows) = None"
  by (induction rows) auto

lemma find_filter_other:
  "j \<noteq> i \<Longrightarrow> find (\<lambda>m. m_id m = j) (filter (\<lambda>m. m_id m \<noteq> i) rows) = find (\<lambda>m. m_id m = j) rows"
  by (induction rows) auto

lemma remove_media_subset: "remove_media remove_ok fs v \<subseteq> fs"
  by (auto simp: remove_media_def split: sql_value.splits if_splits)

lemma remove_media_only: "fs - remove_media remove_ok fs v \<subseteq> {p. v = SqlText p}"
  by (auto simp: remove_media_def split: sql_value.splits if_splits)

lemma remove_media_gone:
  "v = SqlText p \<Longrightarrow> p \<noteq> [] \<Longrightarrow> remove_ok p \<Longrightarrow> p \<notin> remove_media remove_ok fs v"
  by (auto simp: remove_media_def)

lemma delete_memory_found:
  assumes "get_memory_by_id db i = Some row"
  shows "\<exists>db'. delete_memory remove_ok (db, fs) i
                 = (PyBool True, db', remove_media remove_ok fs (m_media_path row))
           \<and> get_memory_by_id db' i = None
           \<and> (\<forall>j. j \<noteq> i \<longrightarrow> get_memory_by_id db' j = get_memory_by_id db j)"
proof -
  let ?db' = "memories_fts_delete row (db\<lparr>memories := filter (\<lambda>m. m_id m \<noteq> i) (memories db)\<rparr>)"
  have m: "memories ?db' = filter (\<lambda>m. m_id m \<noteq> i) (memories db)"
    by (simp add: memories_fts_delete_def)
  have "delete_memory remove_ok (db, fs) i
          = (PyBool True, ?db', remove_media remove_ok fs (m_media_path row))"
    using assms by (simp add: delete_memory_def get_memory_by_id_def Let_def)
  moreover have "get_memory_by_id ?db' i = None"
    unfolding get_memory_by_id_def m by (rule find_filter_removed)
  moreover have "\<forall>j. j \<noteq> i \<longrightarrow> get_memory_by_id ?db' j = get_memory_by_id db j"
    unfolding get_memory_by_id_def m using find_filter_other by blast
  ultimately show ?thesis by blast
qed

lemma delete_memory_not_found:
  "get_memory_by_id db i = None \<Longrightarrow> delete_memory remove_ok (db, fs) i = (PyBool False, db, fs)"
  by (simp add: delete_memory_def get_memory_by_id_def)

text \<open>
  Claim C5, as amended: for an id that exists, \<open>delete_memory\<close> removes the record,
  keeps every other record, itself removes the file at the record's media path when that
  path is a non-empty text, the file exists and \<open>os.remove\<close> succeeds (no other file is
  touched), and returns \<open>True\<close>; for an id that does not exist it returns \<open>False\<close> and
  leaves the store and the files as they were.
\<close>

theorem C5_delete_memory:
  "(\<forall>row. get_memory_by_id db i = Some row \<longrightarrow>
      (\<exists>db' fs'. delete_memory remove_ok (db, fs) i = (PyBool True, db', fs')
         \<and> get_memory_by_id db' i = None
         \<and> (\<forall>j. j \<noteq> i \<longrightarrow> get_memory_by_id db' j = get_memory_by_id db j)
         \<and> fs' \<subseteq> fs
         \<and> fs - fs' \<subseteq> {p. m_media_path row = SqlText p}
         \<and> (\<forall>p. m_media_path row = SqlText p \<and> p \<noteq> [] \<and> remove_ok p \<longrightarrow> p \<notin> fs')))
   \<and> (get_memory_by_id db i = None \<longrightarrow>
        delete_memory remove_ok (db, fs) i = (PyBool False, db, fs))"
proof (intro conjI allI impI)
  fix row
  assume g: "get_memory_by_id db i = Some row"
  let ?fs' = "remove_media remove_ok fs (m_media_path row)"
  obtain db' where d: "delete_memory remove_ok (db, fs) i = (PyBool True, db', ?fs')"
    and n: "get_memory_by_id db' i = None"
    and o: "\<forall>j. j \<noteq> i \<longrightarrow> get_memory_by_id db' j = get_memory_by_id db j"
    using delete_memory_found [OF g] by blast
  have s1: "?fs' \<subseteq> fs"
    by (rule remove_media_subset)
  have s2: "fs - ?fs' \<subseteq> {p. m_media_path row = SqlText p}"
    by (rule remove_media_only)
  have s3: "\<forall>p. m_media_path row = SqlText p \<and> p \<noteq> [] \<and> remove_ok p \<longrightarrow> p \<notin> ?fs'"
    using remove_media_gone by simp
  show "\<exists>db' fs'. delete_memory remove_ok (db, fs) i = (PyBool True, db', fs')
         \<and> get_memory_by_id db' i = None
         \<and> (\<forall>j. j \<noteq> i \<longrightarrow> get_memory_by_id db' j = get_memory_by_id db j)
         \<and> fs' \<subseteq> fs
         \<and> fs - fs' \<subseteq> {p. m_media_path row = SqlText p}
         \<and> (\<forall>p. m_media_path row = SqlText p \<and> p \<noteq> [] \<and> remove_ok p \<longrightarrow> p \<notin> fs')"
    apply (rule exI [of _ db'])
    apply (rule exI [of _ ?fs'])
    apply (intro conjI)
         apply (rule d)
        apply (rule n)
       apply (rule o)
      apply (rule s1)
     apply (rule s2)
    apply (rule s3)
    done
next
  assume "get_memory_by_id db i = None"
  then show "delete_memory remove_ok (db, fs) i = (PyBool False, db, fs)"
    by (rule delete_memory_not_found)
qed

theorem C5_delete_memory_witness:
  "get_memory_by_id summer_db 1 = Some summer_trip
   \<and> m_media_path summer_trip = SqlText ''/media/uploads/a.jpg''
   \<and> (\<exists>db' fs'. delete_memory (\<lambda>p. True) (summer_db, {''/media/uploads/a.jpg'', ''other''}) 1
                    = (PyBool True, db', fs')
         \<and> get_memory_by_id db' 1 = None
         \<and> ''/media/uploads/a.jpg'' \<notin> fs' \<and> fs' \<subseteq> {''/media/uploads/a.jpg'', ''other''})
   \<and> get_memory_by_id summer_db 7 = None
   \<and> delete_memory (\<lambda>p. True) (summer_db, {''/media/uploads/a.jpg'', ''other''}) 7
       = (PyBool False, summer_db, {''/media/uploads/a.jpg'', ''other''})"
proof -
  let ?fs = "{''/media/uploads/a.jpg'', ''other''}"
  have g: "get_memory_by_id summer_db 1 = Some summer_trip"
    by (rule summer_get)
  have mp: "m_media_path summer_trip = SqlText ''/media/uploads/a.jpg''"
    by (simp add: summer_trip_def)
  have n: "get_memory_by_id summer_db 7 = None"
    by (simp add: get_memory_by_id_def summer_db_def summer_trip_def)
  note t1 = C5_delete_memory [of summer_db 1 "\<lambda>p. True" ?fs, THEN conjunct1, rule_format, OF g]
  note t2 = C5_delete_memory [of summer_db 7 "\<lambda>p. True" ?fs, THEN conjunct2, rule_format, OF n]
  from t1 have ex: "\<exists>db' fs'. delete_memory (\<lambda>p. True) (summer_db, ?fs) 1 = (PyBool True, db', fs')
         \<and> get_memory_by_id db' 1 = None
         \<and> ''/media/uploads/a.jpg'' \<notin> fs' \<and> fs' \<subseteq> ?fs"
  proof (elim exE conjE)
    fix db' fs'
    assume d: "delete_memory (\<lambda>p. True) (summer_db, ?fs) 1 = (PyBool True, db', fs')"
      and g': "get_memory_by_id db' 1 = None"
      and sub: "fs' \<subseteq> ?fs"
      and gone: "\<forall>p. m_media_path summer_trip = SqlText p \<and> p \<noteq> [] \<and> True \<longrightarrow> p \<notin> fs'"
    have ng: "''/media/uploads/a.jpg'' \<notin> fs'"
      using gone [rule_format, of "''/media/uploads/a.jpg''"] mp by simp
    show ?thesis
      using d g' ng sub by (intro exI [of _ db'] exI [of _ fs'] conjI)
  qed
  show ?thesis using g mp ex n t2 by (intro conjI)
qed

text \<open>
  Claim C5 as stated fails: the value returned for an existing id is the boolean
  \<open>True\<close>, not the record's media path.
\<close>

theorem C5_delete_returns_bool_counterexample:
  "map_option m_media_path (get_memory_by_id summer_db 1) = Some (SqlText ''/media/uploads/a.jpg'')
   \<and> fst (delete_memory (\<lambda>p. True) (summer_db, {''/media/uploads/a.jpg''}) 1) = PyBool True
   \<and> PyBool True \<noteq> PyStr ''/media/uploads/a.jpg''"
proof -
  have "map_option m_media_path (get_memory_by_id summer_db 1) = Some (SqlText ''/media/uploads/a.jpg'')"
    by (simp add: summer_get) (simp add: summer_trip_def)
  moreover have "fst (delete_memory (\<lambda>p. True) (summer_db, {''/media/uploads/a.jpg''}) 1) = PyBool True"
    using summer_get by (simp add: delete_memory_def get_memory_by_id_def Let_def)
  ultimately show ?thesis by simp
qed

subsection \<open>The index after each mutation\<close>

lemma create_memory_in_sync:
  assumes s: "index_in_sync db"
    and c: "create_memory now db title txt date location sentiment media_path media_type person
             = Inr (i, db')"
  shows "index_in_sync db'"
proof -
  have fresh: "i \<notin> set (map m_id (memories db))"
    using next_rowid_fresh [of _ db] create_memory_Inr(1) [OF c] by force
  have m: "map m_id (memories db') = map m_id (memories db) @ [i]"
    by (simp add: create_memory_Inr(2) [OF c])
  have f: "map f_rowid (fts_index db') = map f_rowid (fts_index db) @ [i]"
    by (simp add: create_memory_Inr(3) [OF c])
  show ?thesis
    using s fresh unfolding index_in_sync_def m f by auto
qed

text \<open>
  Claim C1: every live record has exactly one index entry with its id and every index entry
  has its record, after each of \<open>create_memory\<close>, \<open>update_memory\<close> and
  \<open>delete_memory\<close>. The insert keeps the pairing (lemma \<open>create_memory_in_sync\<close>). The
  other two do not: on the store holding the one record \<open>Summer Trip\<close>, deleting it leaves
  its document in the index, and retitling it leaves the document of the old title beside the
  new one, so that a search for \<open>Summer\<close> still returns the record now titled
  \<open>Mountain Cabin\<close>.
\<close>

theorem C1_index_left_out_of_sync:
  "index_in_sync summer_db
   \<and> delete_memory (\<lambda>p. True) (summer_db, {}) 1 = (PyBool True, after_delete_db, {})
   \<and> get_memory_by_id after_delete_db 1 = None
   \<and> map f_rowid (fts_index after_delete_db) = [1]
   \<and> \<not> index_in_sync after_delete_db
   \<and> update_memory 200 summer_db 1 [(''title'', SqlText ''Mountain Cabin'')]
        = Inr (PyBool True, after_update_db)
   \<and> map f_title (fts_index after_update_db) = [SqlText ''Summer Trip'', SqlText ''Mountain Cabin'']
   \<and> \<not> index_in_sync after_update_db
   \<and> map_sum exc_str (map r_id) (search_memory word_engine after_update_db ''Summer'') = Inr [1]
   \<and> map_sum exc_str (map r_title) (search_memory word_engine after_update_db ''Summer'')
        = Inr [SqlText ''Mountain Cabin'']"
proof -
  have a: "index_in_sync summer_db"
    by (simp add: index_in_sync_def summer_db_def summer_trip_def fts_of_def)
  have b: "delete_memory (\<lambda>p. True) (summer_db, {}) 1 = (PyBool True, after_delete_db, {})"
    by (simp add: delete_memory_def summer_db_def summer_trip_def after_delete_db_def Let_def
        memories_fts_delete_def fts_delete_def remove_media_def)
  have c: "get_memory_by_id after_delete_db 1 = None"
    by (simp add: get_memory_by_id_def after_delete_db_def)
  have d: "map f_rowid (fts_index after_delete_db) = [1]"
    by (simp add: after_delete_db_def fts_of_def summer_trip_def)
  have e: "\<not> index_in_sync after_delete_db"
    by (simp add: index_in_sync_def after_delete_db_def fts_of_def summer_trip_def)
  have f: "update_memory 200 summer_db 1 [(''title'', SqlText ''Mountain Cabin'')]
        = Inr (PyBool True, after_update_db)"
    by (simp add: update_memory_def summer_db_def summer_trip_def after_update_db_def Let_def
        mountain_cabin_def allowed_fields_def set_column_def
        memories_fts_update_def fts_update_def fts_of_def)
  have g: "map f_title (fts_index after_update_db) = [SqlText ''Summer Trip'', SqlText ''Mountain Cabin'']"
    by (simp add: after_update_db_def fts_of_def summer_trip_def mountain_cabin_def)
  have h: "\<not> index_in_sync after_update_db"
    by (simp add: index_in_sync_def after_update_db_def fts_of_def summer_trip_def mountain_cabin_def)
  have s: "search_memory word_engine after_update_db ''Summer''
             = Inr [search_row word_engine ''Summer'' mountain_cabin]"
    by (simp add: search_memory_def py_strip_def py_isspace_def search_memories_def word_engine_def
        matching_rows_def after_update_db_def summer_trip_def mountain_cabin_def
        fts_of_def words_of_def first_occurrences_def List.map_filter_def sql_limit_def)
  have i: "map_sum exc_str (map r_id) (search_memory word_engine after_update_db ''Summer'') = Inr [1]"
    by (simp add: s search_row_def mountain_cabin_def summer_trip_def)
  have j: "map_sum exc_str (map r_title) (search_memory word_engine after_update_db ''Summer'')
        = Inr [SqlText ''Mountain Cabin'']"
    by (simp add: s search_row_def mountain_cabin_def summer_trip_def)
  show ?thesis using a b c d e f g h i j by (intro conjI)
qed

subsection \<open>Snippets\<close>

lemma search_row_snippet:
  "r_snippet (search_row eng q m)
     = combine_snippets (m_title m) (fts5_snippet eng q (m_text m) 32)
         (fts5_snippet eng q (m_person m) 64)"
  by (simp add: search_row_def fts_column_def Let_def)

lemma combine_snippets_both:
  "a \<noteq> [] \<Longrightarrow> b \<noteq> [] \<Longrightarrow>
   combine_snippets t (Some a) (Some b) = SqlText (''Title: '' @ a @ '' | Text: '' @ b)"
  by (simp add: combine_snippets_def snippet_part_def)

lemma combine_snippets_neither:
  "(a = None \<or> a = Some []) \<Longrightarrow> (b = None \<or> b = Some []) \<Longrightarrow> combine_snippets t a b = t"
  by (auto simp: combine_snippets_def snippet_part_def)

text \<open>
  Claim C9: when both the title and the body text produce a snippet the result is
  \<open>Title: <title snippet> | Text: <text snippet>\<close>, and the raw title when neither does.
  The joining of the two parts does that (lemmas \<open>combine_snippets_both\<close> and
  \<open>combine_snippets_neither\<close>), but the parts are read from the wrong columns (lemma
  \<open>search_row_snippet\<close>): the part labelled \<open>Title\<close> is the snippet of the text column and
  the part labelled \<open>Text\<close> that of the person column. For the record titled
  \<open>lake house\<close> with text \<open>the lake is cold\<close> and no person, the query \<open>lake\<close> matches
  title and text, and the query \<open>house\<close> the title only; neither result shows the title.
\<close>

theorem C9_title_snippet_is_taken_from_the_text_column:
  "words_of (m_title lake_house) = [''lake'', ''house'']
   \<and> words_of (m_text lake_house) = [''the'', ''lake'', ''is'', ''cold'']
   \<and> map_sum exc_str (map r_snippet) (search_memory word_engine lake_db ''lake'')
        = Inr [SqlText ''Title: the <mark>lake</mark> is cold'']
   \<and> map_sum exc_str (map r_snippet) (search_memory word_engine lake_db ''house'')
        = Inr [SqlText ''Title: the lake is cold'']"
proof -
  have l: "search_memory word_engine lake_db ''lake'' = Inr [search_row word_engine ''lake'' lake_house]"
    by (simp add: search_memory_def py_strip_def py_isspace_def search_memories_def word_engine_def
        matching_rows_def lake_db_def lake_house_def
        fts_of_def words_of_def first_occurrences_def List.map_filter_def sql_limit_def)
  have h: "search_memory word_engine lake_db ''house'' = Inr [search_row word_engine ''house'' lake_house]"
    by (simp add: search_memory_def py_strip_def py_isspace_def search_memories_def word_engine_def
        matching_rows_def lake_db_def lake_house_def
        fts_of_def words_of_def first_occurrences_def List.map_filter_def sql_limit_def)
  have a: "words_of (m_title lake_house) = [''lake'', ''house'']"
    by (simp add: words_of_def lake_house_def)
  have b: "words_of (m_text lake_house) = [''the'', ''lake'', ''is'', ''cold'']"
    by (simp add: words_of_def lake_house_def)
  have c0: "r_snippet (search_row word_engine ''lake'' lake_house)
              = SqlText ''Title: the <mark>lake</mark> is cold''"
    by (simp add: search_row_snippet word_engine_def lake_house_def combine_snippets_def
        snippet_part_def)
  have d0: "r_snippet (search_row word_engine ''house'' lake_house)
              = SqlText ''Title: the lake is cold''"
    by (simp add: search_row_snippet word_engine_def lake_house_def combine_snippets_def
        snippet_part_def)
  have c: "map_sum exc_str (map r_snippet) (search_memory word_engine lake_db ''lake'')
        = Inr [SqlText ''Title: the <mark>lake</mark> is cold'']"
    by (simp only: l map_sum.simps list.map c0)
  have d: "map_sum exc_str (map r_snippet) (search_memory word_engine lake_db ''house'')
        = Inr [SqlText ''Title: the lake is cold'']"
    by (simp only: h map_sum.simps list.map d0)
  show ?thesis using a b c d by (intro conjI)
qed

subsection \<open>Upload\<close>

lemma create_memory_upload_succeeds:
  "\<exists>i db'. create_memory now db (SqlText t) x d l s (SqlText mp)
              (SqlText (if b then ''image'' else ''audio'')) p = Inr (i, db')"
  by (simp add: create_memory_def Let_def)

lemma startswith_nonempty: "startswith ct (c # p) \<Longrightarrow> ct \<noteq> []"
  by (auto simp: startswith_def)

lemma upload_memory_valid:
  assumes ct: "u_content_type req = Some ct"
    and kind: "startswith ct ''image/'' \<or> startswith ct ''audio/''"
    and w: "write_error = None"
    and x: "extract_content env (insert (upload_file_path env req) fs) (startswith ct ''image/'')
              (upload_file_path env req) = (extracted_text, extracted_date, extracted_location)"
    and c: "create_memory now db (SqlText (u_title req)) (SqlText extracted_text)
              (opt_text extracted_date) (opt_text extracted_location)
              (SqlReal (fst (upload_sentiment eng extracted_text)))
              (SqlText (''/media/uploads/'' @ safe_filename env req))
              (SqlText (if startswith ct ''image/'' then ''image'' else ''audio''))
              (opt_text (u_person req)) = Inr (i, db')"
  shows "upload_memory env eng now write_error (db, fs) req =
           (Inr \<lparr>resp_id = i, resp_title = u_title req,
                 resp_text = extracted_text, resp_date = extracted_date,
                 resp_location = extracted_location,
                 resp_sentiment = fst (upload_sentiment eng extracted_text),
                 resp_media_path = ''/media/uploads/'' @ safe_filename env req,
                 resp_media_type = (if startswith ct ''image/'' then ''image'' else ''audio'')\<rparr>,
            db', insert (upload_file_path env req) fs)"
proof -
  have ne: "ct \<noteq> []"
    using kind startswith_nonempty by blast
  show ?thesis
  proof (cases "startswith ct ''image/''")
    case True
    then show ?thesis
      using ct w ne x c by (simp add: upload_memory_def Let_def)
  next
    case False
    then have "startswith ct ''audio/''" using kind by simp
    then show ?thesis
      using False ct w ne x c by (simp add: upload_memory_def Let_def)
  qed
qed

text \<open>
  The only validation in the handler is that of the content type; its failure leaves the
  store and the files as they were and reaches the caller with status 500. The title is not
  looked at.
\<close>

lemma upload_memory_invalid_content_type:
  assumes "u_content_type req = None \<or> u_content_type req = Some []
           \<or> (\<exists>ct. u_content_type req = Some ct
                 \<and> \<not> startswith ct ''image/'' \<and> \<not> startswith ct ''audio/'')"
  shows "\<exists>detail. upload_memory env eng now write_error (db, fs) req
                    = (Inl (HTTPException 500 detail), db, fs)"
  using assms by (auto simp: upload_memory_def upload_failed_def Let_def)

lemma exif_failure_absent:
  "exifread p = None \<Longrightarrow>
   dict_get (extract_exif_data exifread p) ''date'' = None
   \<and> dict_get (extract_exif_data exifread p) ''location'' = None"
  by (simp add: dict_get_def extract_exif_data_def exif_none_def)

lemma extract_content_failures:
  assumes "extract_content env fs is_image p = (t, d, l)"
  shows "(is_image \<and> \<not> tesseract_version env
            \<longrightarrow> t = ''OCR not available - Tesseract not installed'')
       \<and> (\<forall>e. is_image \<and> tesseract_version env \<and> image_to_string env p = Inl e
            \<longrightarrow> t = ''Text extraction failed: '' @ e)
       \<and> (is_image \<and> exifread_process_file env p = None \<longrightarrow> d = None \<and> l = None)
       \<and> (\<forall>e. \<not> is_image \<and> p \<in> fs \<and> whisper env p = Inl e
            \<longrightarrow> t = ''Transcription failed: '' @ e)
       \<and> (\<not> is_image \<longrightarrow> d = None \<and> l = None)"
  using assms exif_failure_absent [of "exifread_process_file env" p]
  by (auto simp: extract_content_def Let_def extract_text_from_image_def transcribe_audio_def
      split: if_splits)


text \<open>
  Claim C3, as amended: an upload whose content type is an image or audio type and whose
  file is written always ends with a committed record, whatever the extractors do.
  A failure of the EXIF reader leaves date and location absent. A failure of OCR or of the
  transcription does not leave the text empty: the text of the record is the message
  \<open>OCR not available - Tesseract not installed\<close>, \<open>Text extraction failed: ...\<close> or
  \<open>Transcription failed: ...\<close>.
\<close>

theorem C3_extraction_failure_does_not_abort:
  assumes ct: "u_content_type req = Some ct"
    and kind: "startswith ct ''image/'' \<or> startswith ct ''audio/''"
    and w: "write_error = None"
  shows "\<exists>resp db' row.
      upload_memory env eng now write_error (db, fs) req
        = (Inr resp, db', insert (upload_file_path env req) fs)
      \<and> get_memory_by_id db' (resp_id resp) = Some row
      \<and> m_title row = SqlText (u_title req)
      \<and> m_text row = SqlText (resp_text resp)
      \<and> m_date row = opt_text (resp_date resp)
      \<and> m_location row = opt_text (resp_location resp)
      \<and> (startswith ct ''image/'' \<and> \<not> tesseract_version env
           \<longrightarrow> resp_text resp = ''OCR not available - Tesseract not installed'')
      \<and> (\<forall>e. startswith ct ''image/'' \<and> tesseract_version env
               \<and> image_to_string env (upload_file_path env req) = Inl e
           \<longrightarrow> resp_text resp = ''Text extraction failed: '' @ e)
      \<and> (startswith ct ''image/'' \<and> exifread_process_file env (upload_file_path env req) = None
           \<longrightarrow> resp_date resp = None \<and> resp_location resp = None)
      \<and> (\<forall>e. \<not> startswith ct ''image/'' \<and> whisper env (upload_file_path env req) = Inl e
           \<longrightarrow> resp_text resp = ''Transcription failed: '' @ e)"
proof -
  let ?p = "upload_file_path env req"
  let ?img = "startswith ct ''image/''"
  obtain t d l where x: "extract_content env (insert ?p fs) ?img ?p = (t, d, l)"
    using prod_cases3 by blast
  obtain i db' where c: "create_memory now db (SqlText (u_title req)) (SqlText t)
              (opt_text d) (opt_text l)
              (SqlReal (fst (upload_sentiment eng t)))
              (SqlText (''/media/uploads/'' @ safe_filename env req))
              (SqlText (if ?img then ''image'' else ''audio''))
              (opt_text (u_person req)) = Inr (i, db')"
    using create_memory_upload_succeeds by blast
  let ?resp = "\<lparr>resp_id = i, resp_title = u_title req,
                 resp_text = t, resp_date = d, resp_location = l,
                 resp_sentiment = fst (upload_sentiment eng t),
                 resp_media_path = ''/media/uploads/'' @ safe_filename env req,
                 resp_media_type = (if ?img then ''image'' else ''audio'')\<rparr>"
  let ?row = "\<lparr>m_id = i, m_title = SqlText (u_title req), m_text = SqlText t,
               m_date = opt_text d, m_location = opt_text l,
               m_sentiment = SqlReal (fst (upload_sentiment eng t)),
               m_media_path = SqlText (''/media/uploads/'' @ safe_filename env req),
               m_media_type = SqlText (if ?img then ''image'' else ''audio''),
               m_person = opt_text (u_person req), m_created_at = now, m_updated_at = now\<rparr>"
  have u: "upload_memory env eng now write_error (db, fs) req = (Inr ?resp, db', insert ?p fs)"
    by (rule upload_memory_valid [OF ct kind w x c])
  have g: "get_memory_by_id db' (resp_id ?resp) = Some ?row"
    using get_after_create [OF c] by simp
  note f = extract_content_failures [OF x]
  have o1: "?img \<and> \<not> tesseract_version env
           \<longrightarrow> resp_text ?resp = ''OCR not available - Tesseract not installed''"
    using f by simp
  have o2: "\<forall>e. ?img \<and> tesseract_version env \<and> image_to_string env ?p = Inl e
           \<longrightarrow> resp_text ?resp = ''Text extraction failed: '' @ e"
    using f by simp
  have o3: "?img \<and> exifread_process_file env ?p = None
           \<longrightarrow> resp_date ?resp = None \<and> resp_location ?resp = None"
    using f by simp
  have o4: "\<forall>e. \<not> ?img \<and> whisper env ?p = Inl e
           \<longrightarrow> resp_text ?resp = ''Transcription failed: '' @ e"
    using f by simp
  have r1: "m_title ?row = SqlText (u_title req)" by simp
  have r2: "m_text ?row = SqlText (resp_text ?resp)" by simp
  have r3: "m_date ?row = opt_text (resp_date ?resp)" by simp
  have r4: "m_location ?row = opt_text (resp_location ?resp)" by simp
  show ?thesis
    apply (rule exI [of _ ?resp])
    apply (rule exI [of _ db'])
    apply (rule exI [of _ ?row])
    apply (intro conjI)
             apply (rule u)
            apply (rule g)
           apply (rule r1)
          apply (rule r2)
         apply (rule r3)
        apply (rule r4)
       apply (rule o1)
      apply (rule o2)
     apply (rule o3)
    apply (rule o4)
    done
qed

lemma failing_env_paths:
  "upload_file_path failing_env req = ''uploads/u1.jpg''"
  "safe_filename failing_env req = ''u1.jpg''"
  by (simp_all add: upload_file_path_def safe_filename_def failing_env_def)

lemma failing_env_image:
  "extract_content failing_env fs True p
     = (''OCR not available - Tesseract not installed'', None, None)"
  by (simp add: extract_content_def failing_env_def extract_text_from_image_def Let_def
      dict_get_def extract_exif_data_def exif_none_def)

lemma failing_env_audio:
  "p \<in> fs \<Longrightarrow> extract_content failing_env fs False p = (''Transcription failed: no model'', None, None)"
  by (simp add: extract_content_def failing_env_def transcribe_audio_def)

text \<open>
  Claim C3 as stated fails: with Tesseract missing the text of the uploaded image is the
  message \<open>OCR not available - Tesseract not installed\<close>, and with the speech model failing
  the text of the uploaded audio is \<open>Transcription failed: no model\<close>; neither is empty.
\<close>

theorem C3_failure_message_stored_as_text_counterexample:
  "map_sum exc_str resp_text
     (fst (upload_memory failing_env (fixed_engines (1 / 2) (- (1 / 4))) 100 None
             (init_database, {}) photo_request))
     = Inr ''OCR not available - Tesseract not installed''
   \<and> map_sum exc_str resp_text
     (fst (upload_memory failing_env (fixed_engines (1 / 2) (- (1 / 4))) 100 None
             (init_database, {}) voice_request))
     = Inr ''Transcription failed: no model''
   \<and> ''OCR not available - Tesseract not installed'' \<noteq> []
   \<and> ''Transcription failed: no model'' \<noteq> []"
proof -
  let ?eng = "fixed_engines (1 / 2) (- (1 / 4))"
  have ct1: "u_content_type photo_request = Some ''image/jpeg''"
    by (simp add: photo_request_def)
  have ct2: "u_content_type voice_request = Some ''audio/wav''"
    by (simp add: voice_request_def)
  have k1: "startswith ''image/jpeg'' ''image/'' \<or> startswith ''image/jpeg'' ''audio/''"
    by (simp add: startswith_def)
  have k2: "startswith ''audio/wav'' ''image/'' \<or> startswith ''audio/wav'' ''audio/''"
    by (simp add: startswith_def)
  have i1: "startswith ''image/jpeg'' ''image/'' = True"
    by (simp add: startswith_def)
  have i2: "startswith ''audio/wav'' ''image/'' = False"
    by (simp add: startswith_def)
  have x1: "extract_content failing_env (insert (upload_file_path failing_env photo_request) {})
              (startswith ''image/jpeg'' ''image/'') (upload_file_path failing_env photo_request)
              = (''OCR not available - Tesseract not installed'', None, None)"
    unfolding i1 by (rule failing_env_image)
  have x2: "extract_content failing_env (insert (upload_file_path failing_env voice_request) {})
              (startswith ''audio/wav'' ''image/'') (upload_file_path failing_env voice_request)
              = (''Transcription failed: no model'', None, None)"
    unfolding i2 by (rule failing_env_audio) simp
  obtain j1 db1 where c1: "create_memory 100 init_database (SqlText (u_title photo_request))
              (SqlText ''OCR not available - Tesseract not installed'')
              (opt_text None) (opt_text None)
              (SqlReal (fst (upload_sentiment ?eng ''OCR not available - Tesseract not installed'')))
              (SqlText (''/media/uploads/'' @ safe_filename failing_env photo_request))
              (SqlText (if startswith ''image/jpeg'' ''image/'' then ''image'' else ''audio''))
              (opt_text (u_person photo_request)) = Inr (j1, db1)"
    using create_memory_upload_succeeds by blast
  obtain j2 db2 where c2: "create_memory 100 init_database (SqlText (u_title voice_request))
              (SqlText ''Transcription failed: no model'')
              (opt_text None) (opt_text None)
              (SqlReal (fst (upload_sentiment ?eng ''Transcription failed: no model'')))
              (SqlText (''/media/uploads/'' @ safe_filename failing_env voice_request))
              (SqlText (if startswith ''audio/wav'' ''image/'' then ''image'' else ''audio''))
              (opt_text (u_person voice_request)) = Inr (j2, db2)"
    using create_memory_upload_succeeds by blast
  have u1: "map_sum exc_str resp_text
     (fst (upload_memory failing_env ?eng 100 None (init_database, {}) photo_request))
     = Inr ''OCR not available - Tesseract not installed''"
    by (simp only: upload_memory_valid [OF ct1 k1 refl x1 c1] fst_conv map_sum.simps
        upload_response.simps)
  have u2: "map_sum exc_str resp_text
     (fst (upload_memory failing_env ?eng 100 None (init_database, {}) voice_request))
     = Inr ''Transcription failed: no model''"
    by (simp only: upload_memory_valid [OF ct2 k2 refl x2 c2] fst_conv map_sum.simps
        upload_response.simps)
  show ?thesis using u1 u2 by simp
qed

theorem C3_extraction_failure_does_not_abort_witness:
  "u_content_type photo_request = Some ''image/jpeg''
   \<and> (startswith ''image/jpeg'' ''image/'' \<or> startswith ''image/jpeg'' ''audio/'')
   \<and> \<not> tesseract_version failing_env
   \<and> exifread_process_file failing_env (upload_file_path failing_env photo_request) = None
   \<and> (\<exists>resp db' row.
        upload_memory failing_env (fixed_engines (1 / 2) (- (1 / 4))) 100 None
            (init_database, {}) photo_request
          = (Inr resp, db', {''uploads/u1.jpg''})
        \<and> get_memory_by_id db' (resp_id resp) = Some row
        \<and> m_text row = SqlText ''OCR not available - Tesseract not installed''
        \<and> m_date row = SqlNull \<and> m_location row = SqlNull)
   \<and> u_content_type voice_request = Some ''audio/wav''
   \<and> (startswith ''audio/wav'' ''image/'' \<or> startswith ''audio/wav'' ''audio/'')
   \<and> whisper failing_env (upload_file_path failing_env voice_request) = Inl ''no model''
   \<and> (\<exists>resp db' row.
        upload_memory failing_env (fixed_engines (1 / 2) (- (1 / 4))) 100 None
            (init_database, {}) voice_request
          = (Inr resp, db', {''uploads/u1.jpg''})
        \<and> get_memory_by_id db' (resp_id resp) = Some row
        \<and> m_text row = SqlText ''Transcription failed: no model'')"
proof -
  let ?eng = "fixed_engines (1 / 2) (- (1 / 4))"
  have ct1: "u_content_type photo_request = Some ''image/jpeg''"
    by (simp add: photo_request_def)
  have ct2: "u_content_type voice_request = Some ''audio/wav''"
    by (simp add: voice_request_def)
  have k1: "startswith ''image/jpeg'' ''image/'' \<or> startswith ''image/jpeg'' ''audio/''"
    by (simp add: startswith_def)
  have k2: "startswith ''audio/wav'' ''image/'' \<or> startswith ''audio/wav'' ''audio/''"
    by (simp add: startswith_def)
  have i1: "startswith ''image/jpeg'' ''image/''"
    by (simp add: startswith_def)
  have i2: "\<not> startswith ''audio/wav'' ''image/''"
    by (simp add: startswith_def)
  have nt: "\<not> tesseract_version failing_env"
    by (simp add: failing_env_def)
  have ne: "exifread_process_file failing_env (upload_file_path failing_env photo_request) = None"
    by (simp add: failing_env_def)
  have wh: "whisper failing_env (upload_file_path failing_env voice_request) = Inl ''no model''"
    by (simp add: failing_env_def)
  have p1: "insert (upload_file_path failing_env photo_request) {} = {''uploads/u1.jpg''}"
    by (simp add: failing_env_paths)
  have p2: "insert (upload_file_path failing_env voice_request) {} = {''uploads/u1.jpg''}"
    by (simp add: failing_env_paths)
  note t1 = C3_extraction_failure_does_not_abort
              [OF ct1 k1 refl, of failing_env ?eng 100 init_database "{}"]
  note t2 = C3_extraction_failure_does_not_abort
              [OF ct2 k2 refl, of failing_env ?eng 100 init_database "{}"]
  from t1 have e1: "\<exists>resp db' row.
        upload_memory failing_env ?eng 100 None (init_database, {}) photo_request
          = (Inr resp, db', {''uploads/u1.jpg''})
        \<and> get_memory_by_id db' (resp_id resp) = Some row
        \<and> m_text row = SqlText ''OCR not available - Tesseract not installed''
        \<and> m_date row = SqlNull \<and> m_location row = SqlNull"
  proof (elim exE conjE)
    fix resp db' row
    assume u: "upload_memory failing_env ?eng 100 None (init_database, {}) photo_request
                 = (Inr resp, db', insert (upload_file_path failing_env photo_request) {})"
      and g: "get_memory_by_id db' (resp_id resp) = Some row"
      and tx: "m_text row = SqlText (resp_text resp)"
      and dt: "m_date row = opt_text (resp_date resp)"
      and lc: "m_location row = opt_text (resp_location resp)"
      and o: "startswith ''image/jpeg'' ''image/'' \<and> \<not> tesseract_version failing_env
               \<longrightarrow> resp_text resp = ''OCR not available - Tesseract not installed''"
      and x: "startswith ''image/jpeg'' ''image/''
               \<and> exifread_process_file failing_env (upload_file_path failing_env photo_request) = None
               \<longrightarrow> resp_date resp = None \<and> resp_location resp = None"
    have a: "resp_text resp = ''OCR not available - Tesseract not installed''"
      using o i1 nt by simp
    have b: "resp_date resp = None \<and> resp_location resp = None"
      using x i1 ne by simp
    have u': "upload_memory failing_env ?eng 100 None (init_database, {}) photo_request
                 = (Inr resp, db', {''uploads/u1.jpg''})"
      using u by (simp only: p1)
    have r: "m_text row = SqlText ''OCR not available - Tesseract not installed''
             \<and> m_date row = SqlNull \<and> m_location row = SqlNull"
      using tx dt lc a b by (simp add: opt_text_def)
    show ?thesis
      using u' g r by (intro exI [of _ resp] exI [of _ db'] exI [of _ row]) simp
  qed
  from t2 have e2: "\<exists>resp db' row.
        upload_memory failing_env ?eng 100 None (init_database, {}) voice_request
          = (Inr resp, db', {''uploads/u1.jpg''})
        \<and> get_memory_by_id db' (resp_id resp) = Some row
        \<and> m_text row = SqlText ''Transcription failed: no model''"
  proof (elim exE conjE)
    fix resp db' row
    assume u: "upload_memory failing_env ?eng 100 None (init_database, {}) voice_request
                 = (Inr resp, db', insert (upload_file_path failing_env voice_request) {})"
      and g: "get_memory_by_id db' (resp_id resp) = Some row"
      and tx: "m_text row = SqlText (resp_text resp)"
      and a: "\<forall>e. \<not> startswith ''audio/wav'' ''image/''
                 \<and> whisper failing_env (upload_file_path failing_env voice_request) = Inl e
               \<longrightarrow> resp_text resp = ''Transcription failed: '' @ e"
    have a': "resp_text resp = ''Transcription failed: no model''"
      using a [rule_format, of "''no model''"] i2 wh by simp
    have u': "upload_memory failing_env ?eng 100 None (init_database, {}) voice_request
                 = (Inr resp, db', {''uploads/u1.jpg''})"
      using u by (simp only: p2)
    show ?thesis
      using u' g tx a' by (intro exI [of _ resp] exI [of _ db'] exI [of _ row]) simp
  qed
  show ?thesis
    using ct1 k1 nt ne e1 ct2 k2 wh e2 by (intro conjI)
qed

subsection \<open>Listing\<close>

lemma sql_limit_offset_sorted:
  "sorted_wrt R xs \<Longrightarrow> sorted_wrt R (sql_limit_offset limit offset xs)"
  by (simp add: sql_limit_offset_def sql_limit_def sorted_wrt_take sorted_wrt_drop)

lemma sql_limit_offset_subset: "set (sql_limit_offset limit offset xs) \<subseteq> set xs"
proof -
  have "set (take n (drop k xs)) \<subseteq> set xs" for n k
    using set_take_subset [of n "drop k xs"] set_drop_subset [of k xs] by blast
  moreover have "set (drop k xs) \<subseteq> set xs" for k
    by (rule set_drop_subset)
  ultimately show ?thesis
    by (simp add: sql_limit_offset_def sql_limit_def)
qed

lemma sql_limit_offset_distinct:
  "distinct (map f xs) \<Longrightarrow> distinct (map f (sql_limit_offset limit offset xs))"
  by (simp add: sql_limit_offset_def sql_limit_def take_map [symmetric] drop_map [symmetric]
      del: take_map drop_map)

lemma sql_limit_offset_all: "sql_limit_offset (- 1) 0 xs = xs"
  by (simp add: sql_limit_offset_def sql_limit_def)

lemma order_by_created_at_desc_set: "set (order_by_created_at_desc rows) = set rows"
  by (simp add: order_by_created_at_desc_def idx_memories_created_at_def)

lemma order_by_created_at_desc_length: "length (order_by_created_at_desc rows) = length rows"
  by (simp add: order_by_created_at_desc_def idx_memories_created_at_def)

lemma order_by_created_at_desc_distinct:
  "distinct (map m_id rows) \<Longrightarrow> distinct (map m_id (order_by_created_at_desc rows))"
  by (simp add: order_by_created_at_desc_def idx_memories_created_at_def distinct_map rev_map [symmetric]
      del: rev_map)

lemma order_by_created_at_desc_sorted:
  "sorted_wrt (\<lambda>a b. m_created_at b < m_created_at a
                    \<or> (m_created_at b = m_created_at a \<and> m_id b \<le> m_id a))
     (order_by_created_at_desc rows)"
proof -
  let ?key = "\<lambda>m. (m_created_at m, m_id m)"
  have "sorted (map ?key (sort_key ?key rows))"
    by (rule sorted_sort_key)
  then have "sorted_wrt (\<lambda>a b. ?key a \<le> ?key b) (sort_key ?key rows)"
    by (simp only: sorted_map)
  then have "sorted_wrt (\<lambda>a b. ?key b \<le> ?key a) (rev (sort_key ?key rows))"
    by (simp only: sorted_wrt_rev)
  then have "sorted_wrt (\<lambda>a b. m_created_at b < m_created_at a
                    \<or> (m_created_at b = m_created_at a \<and> m_id b \<le> m_id a))
               (rev (sort_key ?key rows))"
    by (rule sorted_wrt_mono_rel [rotated]) auto
  then show ?thesis
    by (simp only: order_by_created_at_desc_def idx_memories_created_at_def)
qed

lemma sorted_wrt_distinct_strict:
  "distinct (map f xs) \<Longrightarrow> sorted_wrt R xs \<Longrightarrow> sorted_wrt (\<lambda>a b. R a b \<and> f a \<noteq> f b) xs"
  by (induction xs) auto

text \<open>
  Claim C6: for every limit and offset, \<open>get_all_memories\<close> and the listing endpoint
  return records of the store ordered by \<open>created_at\<close> descending, and records with equal
  \<open>created_at\<close> by id descending; strictly so, the ids of a table being distinct. With no
  limit and no offset every record is returned, and the endpoint returns the same rows as
  \<open>get_all_memories\<close>, each as a dictionary.
\<close>

theorem C6_listing_newest_first_ties_by_id:
  "sorted_wrt (\<lambda>a b. m_created_at b < m_created_at a
                    \<or> (m_created_at b = m_created_at a \<and> m_id b \<le> m_id a))
     (get_all_memories db limit offset)
   \<and> set (get_all_memories db limit offset) \<subseteq> set (memories db)
   \<and> set (get_all_memories db (- 1) 0) = set (memories db)
   \<and> length (get_all_memories db (- 1) 0) = length (memories db)
   \<and> list_memories db limit offset = map listed (get_all_memories db limit offset)
   \<and> sorted_wrt (\<lambda>a b. l_created_at b < l_created_at a
                    \<or> (l_created_at b = l_created_at a \<and> l_id b \<le> l_id a))
     (list_memories db limit offset)
   \<and> (distinct (map m_id (memories db)) \<longrightarrow>
        sorted_wrt (\<lambda>a b. m_created_at b < m_created_at a
                         \<or> (m_created_at b = m_created_at a \<and> m_id b < m_id a))
          (get_all_memories db limit offset)
        \<and> sorted_wrt (\<lambda>a b. l_created_at b < l_created_at a
                         \<or> (l_created_at b = l_created_at a \<and> l_id b < l_id a))
          (list_memories db limit offset))"
proof -
  let ?R = "\<lambda>a b. m_created_at b < m_created_at a
                    \<or> (m_created_at b = m_created_at a \<and> m_id b \<le> m_id a)"
  let ?S = "\<lambda>a b. m_created_at b < m_created_at a
                    \<or> (m_created_at b = m_created_at a \<and> m_id b < m_id a)"
  have s: "sorted_wrt ?R (get_all_memories db limit offset)"
    unfolding get_all_memories_def
    by (rule sql_limit_offset_sorted [OF order_by_created_at_desc_sorted])
  have sub: "set (get_all_memories db limit offset) \<subseteq> set (memories db)"
    using sql_limit_offset_subset [of limit offset "order_by_created_at_desc (memories db)"]
    by (simp add: get_all_memories_def order_by_created_at_desc_set)
  have all1: "set (get_all_memories db (- 1) 0) = set (memories db)"
    by (simp add: get_all_memories_def sql_limit_offset_all order_by_created_at_desc_set)
  have all2: "length (get_all_memories db (- 1) 0) = length (memories db)"
    by (simp add: get_all_memories_def sql_limit_offset_all order_by_created_at_desc_length)
  have l: "list_memories db limit offset = map listed (get_all_memories db limit offset)"
    by (simp add: list_memories_def get_all_memories_def)
  have ls: "sorted_wrt (\<lambda>a b. l_created_at b < l_created_at a
                    \<or> (l_created_at b = l_created_at a \<and> l_id b \<le> l_id a))
     (list_memories db limit offset)"
    using s unfolding l by (simp add: sorted_wrt_map listed_def)
  have strict: "sorted_wrt ?S (get_all_memories db limit offset)
        \<and> sorted_wrt (\<lambda>a b. l_created_at b < l_created_at a
                         \<or> (l_created_at b = l_created_at a \<and> l_id b < l_id a))
          (list_memories db limit offset)"
    if d: "distinct (map m_id (memories db))"
  proof -
    have "distinct (map m_id (get_all_memories db limit offset))"
      unfolding get_all_memories_def
      by (rule sql_limit_offset_distinct [OF order_by_created_at_desc_distinct [OF d]])
    then have "sorted_wrt (\<lambda>a b. ?R a b \<and> m_id a \<noteq> m_id b) (get_all_memories db limit offset)"
      using s by (rule sorted_wrt_distinct_strict)
    then have g: "sorted_wrt ?S (get_all_memories db limit offset)"
      by (rule sorted_wrt_mono_rel [rotated]) auto
    then have "sorted_wrt (\<lambda>a b. l_created_at b < l_created_at a
                         \<or> (l_created_at b = l_created_at a \<and> l_id b < l_id a))
          (list_memories db limit offset)"
      unfolding l by (simp add: sorted_wrt_map listed_def)
    then show ?thesis using g by simp
  qed
  have st: "distinct (map m_id (memories db)) \<longrightarrow>
        sorted_wrt ?S (get_all_memories db limit offset)
        \<and> sorted_wrt (\<lambda>a b. l_created_at b < l_created_at a
                         \<or> (l_created_at b = l_created_at a \<and> l_id b < l_id a))
          (list_memories db limit offset)"
    using strict by (rule impI)
  show ?thesis
    using s sub all1 all2 l ls st by (intro conjI)
qed

lemma same_second_listing:
  "get_all_memories same_second_db 20 0 = [later_note, second_note, first_note]"
  by (simp add: get_all_memories_def sql_limit_offset_def sql_limit_def
      order_by_created_at_desc_def idx_memories_created_at_def same_second_db_def
      first_note_def second_note_def later_note_def summer_trip_def)

theorem C6_listing_newest_first_ties_by_id_witness:
  "distinct (map m_id (memories same_second_db))
   \<and> get_all_memories same_second_db 20 0 = [later_note, second_note, first_note]
   \<and> map m_id (get_all_memories same_second_db 20 0) = [3, 2, 1]
   \<and> map m_created_at (get_all_memories same_second_db 20 0) = [101, 100, 100]
   \<and> sorted_wrt (\<lambda>a b. m_created_at b < m_created_at a
                       \<or> (m_created_at b = m_created_at a \<and> m_id b < m_id a))
        [later_note, second_note, first_note]"
proof -
  have d: "distinct (map m_id (memories same_second_db))"
    by (simp add: same_second_db_def first_note_def second_note_def later_note_def summer_trip_def)
  note g = same_second_listing
  have i: "map m_id (get_all_memories same_second_db 20 0) = [3, 2, 1]"
    unfolding g by (simp add: first_note_def second_note_def later_note_def summer_trip_def)
  have c: "map m_created_at (get_all_memories same_second_db 20 0) = [101, 100, 100]"
    unfolding g by (simp add: first_note_def second_note_def later_note_def summer_trip_def)
  have "sorted_wrt (\<lambda>a b. m_created_at b < m_created_at a
                       \<or> (m_created_at b = m_created_at a \<and> m_id b < m_id a))
          (get_all_memories same_second_db 20 0)"
    using C6_listing_newest_first_ties_by_id [of same_second_db 20 0] d by blast
  then have s: "sorted_wrt (\<lambda>a b. m_created_at b < m_created_at a
                       \<or> (m_created_at b = m_created_at a \<and> m_id b < m_id a))
        [later_note, second_note, first_note]"
    by (simp only: g)
  show ?thesis using d g i c s by (intro conjI)
qed

end
